theory Spec2Isabelle
  imports Main
begin

section \<open>Strings\<close>

text \<open>
  A Go string is a sequence of bytes; \<open>string\<close> (a list of 8-bit characters) models it.
  \<open>HasPrefix\<close> and \<open>Contains\<close> are \<open>strings.HasPrefix\<close> and \<open>strings.Contains\<close>:
  byte-wise, case-sensitive, and every string contains the empty string.
\<close>

fun HasPrefix :: "string \<Rightarrow> string \<Rightarrow> bool" where
  "HasPrefix s [] = True"
| "HasPrefix [] (p # ps) = False"
| "HasPrefix (c # s) (p # ps) = (c = p \<and> HasPrefix s ps)"

fun Contains :: "string \<Rightarrow> string \<Rightarrow> bool" where
  "Contains [] substr = (substr = [])"
| "Contains (c # s) substr = (HasPrefix (c # s) substr \<or> Contains s substr)"


definition upperByte :: "char \<Rightarrow> char" where
  "upperByte c =
     (let n = (of_char c :: nat) in if 97 \<le> n \<and> n \<le> 122 then char_of (n - 32) else c)"

definition lowerByte :: "char \<Rightarrow> char" where
  "lowerByte c =
     (let n = (of_char c :: nat) in if 65 \<le> n \<and> n \<le> 90 then char_of (n + 32) else c)"

definition ToUpper :: "string \<Rightarrow> string" where
  "ToUpper s = map upperByte s"

definition ToLower :: "string \<Rightarrow> string" where
  "ToLower s = map lowerByte s"

section \<open>Error translation\<close>

text \<open>
  \<open>MapSQLiteError\<close>: a Go \<open>error\<close> is \<open>None\<close> for nil and \<open>Some msg\<close> for an error
  whose \<open>Error()\<close> text is \<open>msg\<close>. The cases are tried in the order of the source.
\<close>

definition MapSQLiteError :: "string option \<Rightarrow> string" where
  "MapSQLiteError err =
     (case err of
        None \<Rightarrow> ''00000''
      | Some errMsg \<Rightarrow>
          if Contains errMsg ''UNIQUE constraint failed'' then ''23505''
          else if Contains errMsg ''NOT NULL constraint failed'' then ''23502''
          else if Contains errMsg ''FOREIGN KEY constraint failed'' then ''23503''
          else if Contains errMsg ''CHECK constraint failed'' then ''23514''
          else if Contains errMsg ''constraint failed'' then ''23000''
          else if Contains errMsg ''database is locked'' then ''40001''
          else if Contains errMsg ''disk I/O error'' then ''08006''
          else if Contains errMsg ''database disk image is malformed'' then ''58030''
          else if Contains errMsg ''no such table'' then ''42P01''
          else if Contains errMsg ''no such column'' then ''42703''
          else if Contains errMsg ''syntax error'' then ''42601''
          else if Contains errMsg ''out of memory'' then ''53200''
          else if Contains errMsg ''disk full'' then ''53100''
          else ''XX000'')"

text \<open>
  The same classification written as data: the ordered list of (pattern, class) pairs,
  and the class of the first pattern the message contains.
\<close>

definition sqlite_error_table :: "(string \<times> string) list" where
  "sqlite_error_table =
     [(''UNIQUE constraint failed'', ''23505''),
      (''NOT NULL constraint failed'', ''23502''),
      (''FOREIGN KEY constraint failed'', ''23503''),
      (''CHECK constraint failed'', ''23514''),
      (''constraint failed'', ''23000''),
      (''database is locked'', ''40001''),
      (''disk I/O error'', ''08006''),
      (''database disk image is malformed'', ''58030''),
      (''no such table'', ''42P01''),
      (''no such column'', ''42703''),
      (''syntax error'', ''42601''),
      (''out of memory'', ''53200''),
      (''disk full'', ''53100'')]"

fun first_match :: "string \<Rightarrow> (string \<times> string) list \<Rightarrow> string" where
  "first_match msg [] = ''XX000''"
| "first_match msg ((pat, cls) # rest) =
     (if Contains msg pat then cls else first_match msg rest)"

section \<open>Resolving the mode of a BEGIN instruction\<close>

text \<open>
  The first lines of \<open>handleBeginSimple\<close>: the mode named by the query text.
  \<open>handleBeginSimple\<close> below passes it to the transaction manager.
\<close>

definition resolveBeginMode :: "string \<Rightarrow> string" where
  "resolveBeginMode query =
     (let upperQuery = ToUpper query in
      if Contains upperQuery ''IMMEDIATE'' then ''immediate''
      else if Contains upperQuery ''EXCLUSIVE'' then ''exclusive''
      else ''deferred'')"


section \<open>The SQLite backend\<close>

text \<open>
  \<open>ConnectionState\<close> as in the source. A \<open>*sql.Tx\<close> or \<open>*sql.Stmt\<close> pointer is a
  handle number, \<open>nil\<close> is \<open>None\<close>; the locks are not modelled (each operation runs
  to its end before the next one starts).
\<close>

datatype TransactionStatus = TxIdle | TxInTransaction | TxFailed

record ConnectionState =
  ID :: string
  Tx :: "nat option"
  InTx :: bool
  TxStatus :: TransactionStatus
  PreparedStmts :: "string \<rightharpoonup> nat"

text \<open>
  The engine behind \<open>db *sql.DB\<close> is not part of the repository. It is modelled by
  what the backend can observe of it: the calls made on the shared handle and on the
  transaction and statement handles (oldest first), a counter that hands out fresh
  handles, and the statements prepared and not yet closed. Whether a call succeeds is
  not decided by the model: every operation takes the engine's answer to each call it
  may make (\<open>None\<close> for success, \<open>Some msg\<close> for an error with that text).
\<close>

datatype db_handle = DB | TX nat

datatype engine_call =
    CallBegin
  | CallExec db_handle string "string list"
  | CallQuery db_handle string "string list"
  | CallPrepare db_handle string
  | CallCommit nat
  | CallRollback nat
  | CallStmtClose nat
  | CallStmtQuery nat "string list"

record Engine =
  calls :: "engine_call list"
  next_handle :: nat
  open_stmts :: "nat set"

record SQLiteBackend =
  db :: Engine
  dbPath :: string
  transactionMode :: string
  connections :: "string \<rightharpoonup> ConnectionState"

definition record_call :: "engine_call \<Rightarrow> Engine \<Rightarrow> Engine" where
  "record_call c e = e\<lparr>calls := calls e @ [c]\<rparr>"

definition db_Begin :: "string option \<Rightarrow> Engine \<Rightarrow> (string + nat) \<times> Engine" where
  "db_Begin fault e =
     (case fault of
        Some err \<Rightarrow> (Inl err, record_call CallBegin e)
      | None \<Rightarrow>
          (Inr (next_handle e),
           (record_call CallBegin e)\<lparr>next_handle := Suc (next_handle e)\<rparr>))"

definition handle_Exec ::
  "db_handle \<Rightarrow> string \<Rightarrow> string list \<Rightarrow> 'r \<Rightarrow> Engine \<Rightarrow> 'r \<times> Engine" where
  "handle_Exec h query args answer e = (answer, record_call (CallExec h query args) e)"

definition handle_Query ::
  "db_handle \<Rightarrow> string \<Rightarrow> string list \<Rightarrow> 'r \<Rightarrow> Engine \<Rightarrow> 'r \<times> Engine" where
  "handle_Query h query args answer e = (answer, record_call (CallQuery h query args) e)"

definition handle_Prepare ::
  "db_handle \<Rightarrow> string \<Rightarrow> string option \<Rightarrow> Engine \<Rightarrow> (string + nat) \<times> Engine" where
  "handle_Prepare h query fault e =
     (case fault of
        Some err \<Rightarrow> (Inl err, record_call (CallPrepare h query) e)
      | None \<Rightarrow>
          (Inr (next_handle e),
           (record_call (CallPrepare h query) e)
             \<lparr>next_handle := Suc (next_handle e),
              open_stmts := insert (next_handle e) (open_stmts e)\<rparr>))"

definition tx_Commit :: "nat \<Rightarrow> string option \<Rightarrow> Engine \<Rightarrow> string option \<times> Engine" where
  "tx_Commit tx fault e = (fault, record_call (CallCommit tx) e)"

definition tx_Rollback :: "nat \<Rightarrow> string option \<Rightarrow> Engine \<Rightarrow> string option \<times> Engine" where
  "tx_Rollback tx fault e = (fault, record_call (CallRollback tx) e)"

text \<open>
  \<open>stmt.Close()\<close>: the statement is closed from then on, whether or not the call
  reports an error.
\<close>

definition stmt_Close :: "nat \<Rightarrow> string option \<Rightarrow> Engine \<Rightarrow> string option \<times> Engine" where
  "stmt_Close stmt fault e =
     (fault, (record_call (CallStmtClose stmt) e)\<lparr>open_stmts := open_stmts e - {stmt}\<rparr>)"

definition stmt_Query ::
  "nat \<Rightarrow> string list \<Rightarrow> 'r \<Rightarrow> Engine \<Rightarrow> 'r \<times> Engine" where
  "stmt_Query stmt args answer e = (answer, record_call (CallStmtQuery stmt args) e)"

text \<open>
  \<open>NewSQLiteBackend\<close> after a successful open and ping: no connection is known and
  no call has been logged. The pool settings play no part in the model.
\<close>

definition NewSQLiteBackend :: "string \<Rightarrow> string \<Rightarrow> SQLiteBackend" where
  "NewSQLiteBackend path mode =
     \<lparr>db = \<lparr>calls = [], next_handle = 0, open_stmts = {}\<rparr>,
      dbPath = path,
      transactionMode = mode,
      connections = Map.empty\<rparr>"

definition GetOrCreateConnection ::
  "string \<Rightarrow> SQLiteBackend \<Rightarrow> ConnectionState \<times> SQLiteBackend" where
  "GetOrCreateConnection connectionID b =
     (case connections b connectionID of
        Some conn \<Rightarrow> (conn, b)
      | None \<Rightarrow>
          (let conn = \<lparr>ID = connectionID, Tx = None, InTx = False, TxStatus = TxIdle,
                        PreparedStmts = Map.empty\<rparr>
           in (conn, b\<lparr>connections := (connections b)(connectionID \<mapsto> conn)\<rparr>)))"

text \<open>
  The \<open>switch\<close> of \<open>BeginTransaction\<close> on the lower-cased mode: \<open>db.Begin()\<close>, then
  for the immediate and exclusive modes an \<open>Exec\<close> on the new handle when the begin
  succeeded. The result is the pair \<open>(tx, err)\<close> the code tests afterwards. The
  mode decides only which engine calls are made.
\<close>

definition begin_in_mode ::
  "string \<Rightarrow> string option \<Rightarrow> string option \<Rightarrow> Engine \<Rightarrow> (string + nat) \<times> Engine" where
  "begin_in_mode lowered begin_fault exec_fault e =
     (if lowered = ''immediate'' then
        (case db_Begin begin_fault e of
           (Inl err, e1) \<Rightarrow> (Inl err, e1)
         | (Inr tx, e1) \<Rightarrow>
             (case handle_Exec (TX tx) ''BEGIN IMMEDIATE'' [] exec_fault e1 of
                (Some err, e2) \<Rightarrow> (Inl err, e2)
              | (None, e2) \<Rightarrow> (Inr tx, e2)))
      else if lowered = ''exclusive'' then
        (case db_Begin begin_fault e of
           (Inl err, e1) \<Rightarrow> (Inl err, e1)
         | (Inr tx, e1) \<Rightarrow>
             (case handle_Exec (TX tx) ''BEGIN EXCLUSIVE'' [] exec_fault e1 of
                (Some err, e2) \<Rightarrow> (Inl err, e2)
              | (None, e2) \<Rightarrow> (Inr tx, e2)))
      else db_Begin begin_fault e)"

definition BeginTransaction ::
  "string \<Rightarrow> string \<Rightarrow> string option \<Rightarrow> string option \<Rightarrow> SQLiteBackend
     \<Rightarrow> string option \<times> SQLiteBackend" where
  "BeginTransaction connectionID mode begin_fault exec_fault b0 =
     (case GetOrCreateConnection connectionID b0 of (conn, b) \<Rightarrow>
        if InTx conn then (Some ''transaction already in progress'', b)
        else
          (let txMode = (if mode = [] then transactionMode b else mode) in
           case begin_in_mode (ToLower txMode) begin_fault exec_fault (db b) of
             (Inl err, e) \<Rightarrow> (Some (''failed to begin transaction: '' @ err), b\<lparr>db := e\<rparr>)
           | (Inr tx, e) \<Rightarrow>
               (None,
                b\<lparr>db := e,
                  connections := (connections b)(connectionID \<mapsto>
                     conn\<lparr>Tx := Some tx, InTx := True, TxStatus := TxInTransaction\<rparr>)\<rparr>)))"

definition CommitTransaction ::
  "string \<Rightarrow> string option \<Rightarrow> SQLiteBackend \<Rightarrow> string option \<times> SQLiteBackend" where
  "CommitTransaction connectionID commit_fault b0 =
     (case GetOrCreateConnection connectionID b0 of (conn, b) \<Rightarrow>
        (case Tx conn of
           None \<Rightarrow> (Some ''no transaction in progress'', b)
         | Some tx \<Rightarrow>
             if \<not> InTx conn then (Some ''no transaction in progress'', b)
             else
               (case tx_Commit tx commit_fault (db b) of
                  (Some err, e) \<Rightarrow>
                    (Some (''failed to commit transaction: '' @ err),
                     b\<lparr>db := e,
                       connections := (connections b)(connectionID \<mapsto>
                          conn\<lparr>TxStatus := TxFailed\<rparr>)\<rparr>)
                | (None, e) \<Rightarrow>
                    (None,
                     b\<lparr>db := e,
                       connections := (connections b)(connectionID \<mapsto>
                          conn\<lparr>Tx := None, InTx := False, TxStatus := TxIdle\<rparr>)\<rparr>))))"

definition RollbackTransaction ::
  "string \<Rightarrow> string option \<Rightarrow> SQLiteBackend \<Rightarrow> string option \<times> SQLiteBackend" where
  "RollbackTransaction connectionID rollback_fault b0 =
     (case GetOrCreateConnection connectionID b0 of (conn, b) \<Rightarrow>
        (case Tx conn of
           None \<Rightarrow> (Some ''no transaction in progress'', b)
         | Some tx \<Rightarrow>
             if \<not> InTx conn then (Some ''no transaction in progress'', b)
             else
               (case tx_Rollback tx rollback_fault (db b) of
                  (Some err, e) \<Rightarrow>
                    (Some (''failed to rollback transaction: '' @ err), b\<lparr>db := e\<rparr>)
                | (None, e) \<Rightarrow>
                    (None,
                     b\<lparr>db := e,
                       connections := (connections b)(connectionID \<mapsto>
                          conn\<lparr>Tx := None, InTx := False, TxStatus := TxIdle\<rparr>)\<rparr>))))"

text \<open>
  The handle a statement of the connection runs on: the transaction handle when
  \<open>conn.InTx && conn.Tx != nil\<close>, the shared handle otherwise.
\<close>

definition active_handle :: "ConnectionState \<Rightarrow> db_handle" where
  "active_handle conn =
     (case Tx conn of
        Some tx \<Rightarrow> if InTx conn then TX tx else DB
      | None \<Rightarrow> DB)"

definition Query ::
  "string \<Rightarrow> string \<Rightarrow> string list \<Rightarrow> 'r \<Rightarrow> SQLiteBackend \<Rightarrow> 'r \<times> SQLiteBackend" where
  "Query connectionID query args answer b0 =
     (case GetOrCreateConnection connectionID b0 of (conn, b) \<Rightarrow>
        (case handle_Query (active_handle conn) query args answer (db b) of
           (r, e) \<Rightarrow> (r, b\<lparr>db := e\<rparr>)))"

definition Exec ::
  "string \<Rightarrow> string \<Rightarrow> string list \<Rightarrow> 'r \<Rightarrow> SQLiteBackend \<Rightarrow> 'r \<times> SQLiteBackend" where
  "Exec connectionID query args answer b0 =
     (case GetOrCreateConnection connectionID b0 of (conn, b) \<Rightarrow>
        (case handle_Exec (active_handle conn) query args answer (db b) of
           (r, e) \<Rightarrow> (r, b\<lparr>db := e\<rparr>)))"

text \<open>
  \<open>Prepare\<close>: \<open>close_fault\<close> is the engine's answer to closing the statement
  already bound to the name (the code ignores it), \<open>prepare_fault\<close> its answer to the
  new prepare.
\<close>

definition Prepare ::
  "string \<Rightarrow> string \<Rightarrow> string \<Rightarrow> string option \<Rightarrow> string option \<Rightarrow> SQLiteBackend
     \<Rightarrow> string option \<times> SQLiteBackend" where
  "Prepare connectionID name query close_fault prepare_fault b0 =
     (case GetOrCreateConnection connectionID b0 of (conn, b) \<Rightarrow>
        (let e1 = (case PreparedStmts conn name of
                     Some stmt \<Rightarrow> snd (stmt_Close stmt close_fault (db b))
                   | None \<Rightarrow> db b)
         in case handle_Prepare (active_handle conn) query prepare_fault e1 of
              (Inl err, e2) \<Rightarrow>
                (Some (''failed to prepare statement: '' @ err), b\<lparr>db := e2\<rparr>)
            | (Inr stmt, e2) \<Rightarrow>
                (None,
                 b\<lparr>db := e2,
                   connections := (connections b)(connectionID \<mapsto>
                      conn\<lparr>PreparedStmts := (PreparedStmts conn)(name \<mapsto> stmt)\<rparr>)\<rparr>)))"

definition ExecutePrepared ::
  "string \<Rightarrow> string \<Rightarrow> string list \<Rightarrow> 'r \<Rightarrow> SQLiteBackend
     \<Rightarrow> (string + 'r) \<times> SQLiteBackend" where
  "ExecutePrepared connectionID name args answer b0 =
     (case GetOrCreateConnection connectionID b0 of (conn, b) \<Rightarrow>
        (case PreparedStmts conn name of
           None \<Rightarrow> (Inl (''prepared statement not found: '' @ name), b)
         | Some stmt \<Rightarrow>
             (case stmt_Query stmt args answer (db b) of
                (r, e) \<Rightarrow> (Inr r, b\<lparr>db := e\<rparr>))))"

definition ClosePrepared ::
  "string \<Rightarrow> string \<Rightarrow> string option \<Rightarrow> SQLiteBackend \<Rightarrow> string option \<times> SQLiteBackend" where
  "ClosePrepared connectionID name close_fault b0 =
     (case GetOrCreateConnection connectionID b0 of (conn, b) \<Rightarrow>
        (case PreparedStmts conn name of
           None \<Rightarrow> (None, b)
         | Some stmt \<Rightarrow>
             (case stmt_Close stmt close_fault (db b) of
                (Some err, e) \<Rightarrow>
                  (Some (''failed to close prepared statement: '' @ err), b\<lparr>db := e\<rparr>)
              | (None, e) \<Rightarrow>
                  (None,
                   b\<lparr>db := e,
                     connections := (connections b)(connectionID \<mapsto>
                        conn\<lparr>PreparedStmts := (PreparedStmts conn)(name := None)\<rparr>)\<rparr>))))"

definition GetTransactionStatus ::
  "string \<Rightarrow> SQLiteBackend \<Rightarrow> TransactionStatus \<times> SQLiteBackend" where
  "GetTransactionStatus connectionID b0 =
     (case GetOrCreateConnection connectionID b0 of (conn, b) \<Rightarrow> (TxStatus conn, b))"

text \<open>
  A run of backend operations, each with the engine's answers to the calls it may
  make. The rows and results that \<open>Query\<close> and \<open>Exec\<close> hand back do not change the
  backend, so a run carries none.
\<close>

datatype backend_op =
    OpBegin string string "string option" "string option"
  | OpCommit string "string option"
  | OpRollback string "string option"
  | OpQuery string string "string list"
  | OpExec string string "string list"
  | OpPrepare string string string "string option" "string option"
  | OpClosePrepared string string "string option"

fun apply_op :: "backend_op \<Rightarrow> SQLiteBackend \<Rightarrow> SQLiteBackend" where
  "apply_op (OpBegin c mode bf ef) b = snd (BeginTransaction c mode bf ef b)"
| "apply_op (OpCommit c cf) b = snd (CommitTransaction c cf b)"
| "apply_op (OpRollback c rf) b = snd (RollbackTransaction c rf b)"
| "apply_op (OpQuery c q args) b = snd (Query c q args () b)"
| "apply_op (OpExec c q args) b = snd (Exec c q args () b)"
| "apply_op (OpPrepare c name q cf pf) b = snd (Prepare c name q cf pf b)"
| "apply_op (OpClosePrepared c name cf) b = snd (ClosePrepared c name cf b)"

definition run_ops :: "backend_op list \<Rightarrow> SQLiteBackend \<Rightarrow> SQLiteBackend" where
  "run_ops ops b = fold apply_op ops b"

text \<open>The state of a connection as the next operation on it will find it.\<close>

definition conn_of :: "string \<Rightarrow> SQLiteBackend \<Rightarrow> ConnectionState" where
  "conn_of connectionID b = fst (GetOrCreateConnection connectionID b)"

definition status_of :: "string \<Rightarrow> SQLiteBackend \<Rightarrow> TransactionStatus" where
  "status_of connectionID b = fst (GetTransactionStatus connectionID b)"

section \<open>The transaction manager\<close>

text \<open>
  The fields of \<open>TransactionManager\<close> that \<open>Begin\<close>, \<open>Commit\<close> and \<open>Rollback\<close>
  touch. \<open>uploadChan\<close> is the buffered channel made by \<open>make(chan bool, 1)\<close>: the
  values sent and not yet received, at most \<open>uploadChan_capacity\<close> of them. The
  upload worker that receives from it runs concurrently and is not modelled.
\<close>

record TransactionManager =
  backend :: SQLiteBackend
  uploadPending :: bool
  uploadChan :: "bool list"

definition uploadChan_capacity :: nat where
  "uploadChan_capacity = 1"

text \<open>
  \<open>select { case ch <- v: default: }\<close>: the value is queued when the buffer has
  room, and the statement falls through at once when it has none.
\<close>

definition try_send :: "nat \<Rightarrow> 'a \<Rightarrow> 'a list \<Rightarrow> 'a list" where
  "try_send capacity v ch = (if length ch < capacity then ch @ [v] else ch)"

definition NewTransactionManager :: "SQLiteBackend \<Rightarrow> TransactionManager" where
  "NewTransactionManager b = \<lparr>backend = b, uploadPending = False, uploadChan = []\<rparr>"

definition TransactionManager_Begin ::
  "string \<Rightarrow> string \<Rightarrow> string option \<Rightarrow> string option \<Rightarrow> TransactionManager
     \<Rightarrow> string option \<times> TransactionManager" where
  "TransactionManager_Begin connectionID mode begin_fault exec_fault tm =
     (case BeginTransaction connectionID mode begin_fault exec_fault (backend tm) of
        (r, b) \<Rightarrow> (r, tm\<lparr>backend := b\<rparr>))"

definition TransactionManager_Commit ::
  "string \<Rightarrow> string option \<Rightarrow> TransactionManager \<Rightarrow> string option \<times> TransactionManager" where
  "TransactionManager_Commit connectionID commit_fault tm =
     (case CommitTransaction connectionID commit_fault (backend tm) of
        (Some err, b) \<Rightarrow> (Some err, tm\<lparr>backend := b\<rparr>)
      | (None, b) \<Rightarrow>
          (None,
           tm\<lparr>backend := b,
              uploadPending := True,
              uploadChan := try_send uploadChan_capacity True (uploadChan tm)\<rparr>))"


section \<open>The wire handler's transaction statements\<close>

text \<open>
  The handler shares its backend with the transaction manager, so the model keeps the
  one copy inside \<open>txManager\<close>. The transaction monitor only keeps metrics; the model
  records the calls made on it. \<open>log_lines\<close> are the lines written with
  \<open>log.Printf\<close>.
\<close>

datatype monitor_call =
    StartTransaction string
  | EndTransaction string bool
  | RecordQuery string

record SimpleWireHandler =
  txManager :: TransactionManager
  monitor_calls :: "monitor_call list"
  log_lines :: "string list"

definition handleBeginSimple ::
  "string \<Rightarrow> string \<Rightarrow> string option \<Rightarrow> string option \<Rightarrow> SimpleWireHandler
     \<Rightarrow> string option \<times> SimpleWireHandler" where
  "handleBeginSimple connectionID query begin_fault exec_fault h =
     (let mode = resolveBeginMode query in
      case TransactionManager_Begin connectionID mode begin_fault exec_fault (txManager h) of
        (Some err, tm) \<Rightarrow>
          (Some (''failed to begin transaction: '' @ err), h\<lparr>txManager := tm\<rparr>)
      | (None, tm) \<Rightarrow>
          (None,
           h\<lparr>txManager := tm,
             monitor_calls := monitor_calls h @ [StartTransaction connectionID]\<rparr>))"

definition handleCommitSimple ::
  "string \<Rightarrow> string option \<Rightarrow> SimpleWireHandler \<Rightarrow> string option \<times> SimpleWireHandler" where
  "handleCommitSimple connectionID commit_fault h =
     (case TransactionManager_Commit connectionID commit_fault (txManager h) of
        (Some err, tm) \<Rightarrow>
          (Some (''failed to commit transaction: '' @ err), h\<lparr>txManager := tm\<rparr>)
      | (None, tm) \<Rightarrow>
          (None,
           h\<lparr>txManager := tm,
             monitor_calls := monitor_calls h @ [EndTransaction connectionID True]\<rparr>))"


section \<open>Blob storage on the local file system\<close>

text \<open>
  The file system is the content of every regular file, by path. An operating-system
  call can fail for reasons the model does not decide (permissions, a full disk): each
  call takes a fault, \<open>None\<close> when the system meets none, \<open>Some msg\<close> when it reports
  an error other than "does not exist". A missing file is reported as \<open>ErrNotExist\<close>.
\<close>

type_synonym bytes = string

type_synonym filesystem = "string \<rightharpoonup> bytes"

datatype os_error = ErrNotExist | ErrOther string

fun os_error_text :: "os_error \<Rightarrow> string" where
  "os_error_text ErrNotExist = ''no such file or directory''"
| "os_error_text (ErrOther msg) = msg"

fun IsNotExist :: "os_error \<Rightarrow> bool" where
  "IsNotExist ErrNotExist = True"
| "IsNotExist (ErrOther msg) = False"

definition os_Open :: "string option \<Rightarrow> string \<Rightarrow> filesystem \<Rightarrow> os_error + bytes" where
  "os_Open fault path fs =
     (case fault of
        Some msg \<Rightarrow> Inl (ErrOther msg)
      | None \<Rightarrow> (case fs path of None \<Rightarrow> Inl ErrNotExist | Some content \<Rightarrow> Inr content))"

definition os_Create ::
  "string option \<Rightarrow> string \<Rightarrow> filesystem \<Rightarrow> os_error option \<times> filesystem" where
  "os_Create fault path fs =
     (case fault of
        Some msg \<Rightarrow> (Some (ErrOther msg), fs)
      | None \<Rightarrow> (None, fs(path \<mapsto> [])))"

text \<open>
  \<open>io.Copy\<close> into a file that was just created: without a fault the file holds the
  whole data; a fault \<open>(n, msg)\<close> stops the copy after \<open>n\<close> bytes.
\<close>

definition io_Copy ::
  "(nat \<times> string) option \<Rightarrow> string \<Rightarrow> bytes \<Rightarrow> filesystem \<Rightarrow> string option \<times> filesystem" where
  "io_Copy fault path data fs =
     (case fault of
        Some (n, msg) \<Rightarrow> (Some msg, fs(path \<mapsto> take n data))
      | None \<Rightarrow> (None, fs(path \<mapsto> data)))"

text \<open>
  \<open>os.Rename\<close> puts the file under its new path in one step, replacing what was
  there (atomic on POSIX, as the source notes).
\<close>

definition os_Rename ::
  "string option \<Rightarrow> string \<Rightarrow> string \<Rightarrow> filesystem \<Rightarrow> os_error option \<times> filesystem" where
  "os_Rename fault oldpath newpath fs =
     (case fault of
        Some msg \<Rightarrow> (Some (ErrOther msg), fs)
      | None \<Rightarrow>
          (case fs oldpath of
             None \<Rightarrow> (Some ErrNotExist, fs)
           | Some content \<Rightarrow> (None, (fs(oldpath := None))(newpath \<mapsto> content))))"

definition os_Remove ::
  "string option \<Rightarrow> string \<Rightarrow> filesystem \<Rightarrow> os_error option \<times> filesystem" where
  "os_Remove fault path fs =
     (case fault of
        Some msg \<Rightarrow> (Some (ErrOther msg), fs)
      | None \<Rightarrow>
          (case fs path of
             None \<Rightarrow> (Some ErrNotExist, fs)
           | Some content \<Rightarrow> (None, fs(path := None))))"

definition os_Stat :: "string option \<Rightarrow> string \<Rightarrow> filesystem \<Rightarrow> os_error option" where
  "os_Stat fault path fs =
     (case fault of
        Some msg \<Rightarrow> Some (ErrOther msg)
      | None \<Rightarrow> (case fs path of None \<Rightarrow> Some ErrNotExist | Some content \<Rightarrow> None))"

text \<open>
  \<open>LocalStorage\<close>. \<open>filepath.Join\<close> belongs to the Go library; every function takes
  it as the parameter \<open>join\<close>, so the results hold for any way of joining a directory
  and a file name.
\<close>

record LocalStorage =
  basePath :: string

definition database_file :: "(string \<Rightarrow> string \<Rightarrow> string) \<Rightarrow> LocalStorage \<Rightarrow> string \<Rightarrow> string" where
  "database_file join s name = join (basePath s) (name @ ''.sqlite'')"

text \<open>
  \<open>Download\<close> returns an error, or \<open>None\<close> for the pair \<open>(nil, nil)\<close> of a database
  that does not exist yet, or the content read from the opened file.
\<close>

definition LocalStorage_Download ::
  "(string \<Rightarrow> string \<Rightarrow> string) \<Rightarrow> LocalStorage \<Rightarrow> string \<Rightarrow> string option \<Rightarrow> filesystem
     \<Rightarrow> string + bytes option" where
  "LocalStorage_Download join s name open_fault fs =
     (let path = database_file join s name in
      case os_Open open_fault path fs of
        Inl err \<Rightarrow>
          if IsNotExist err then Inr None
          else Inl (''failed to open database file: '' @ os_error_text err)
      | Inr content \<Rightarrow> Inr (Some content))"

record upload_faults =
  on_create :: "string option"
  on_copy :: "(nat \<times> string) option"
  on_sync :: "string option"
  on_rename :: "string option"
  on_remove :: "string option"

definition no_faults :: upload_faults where
  "no_faults =
     \<lparr>on_create = None, on_copy = None, on_sync = None, on_rename = None,
      on_remove = None\<rparr>"

text \<open>
  \<open>Upload\<close>, step by step: the result, and the file system after each call that can
  change it, in order. \<open>LocalStorage_Upload\<close> keeps the last of these states.
\<close>

definition LocalStorage_Upload_steps ::
  "(string \<Rightarrow> string \<Rightarrow> string) \<Rightarrow> LocalStorage \<Rightarrow> string \<Rightarrow> bytes \<Rightarrow> upload_faults
     \<Rightarrow> filesystem \<Rightarrow> string option \<times> filesystem list" where
  "LocalStorage_Upload_steps join s name data faults fs =
     (let path = database_file join s name;
          tmpPath = path @ ''.tmp''
      in case os_Create (on_create faults) tmpPath fs of
           (Some err, fs1) \<Rightarrow>
             (Some (''failed to create temp file: '' @ os_error_text err), [fs1])
         | (None, fs1) \<Rightarrow>
             (case io_Copy (on_copy faults) tmpPath data fs1 of
                (Some err, fs2) \<Rightarrow>
                  (Some (''failed to write to temp file: '' @ err),
                   [fs1, fs2, snd (os_Remove (on_remove faults) tmpPath fs2)])
              | (None, fs2) \<Rightarrow>
                  (case on_sync faults of
                     Some err \<Rightarrow>
                       (Some (''failed to sync temp file: '' @ err),
                        [fs1, fs2, snd (os_Remove (on_remove faults) tmpPath fs2)])
                   | None \<Rightarrow>
                       (case os_Rename (on_rename faults) tmpPath path fs2 of
                          (Some err, fs3) \<Rightarrow>
                            (Some (''failed to rename temp file: '' @ os_error_text err),
                             [fs1, fs2, fs3,
                              snd (os_Remove (on_remove faults) tmpPath fs3)])
                        | (None, fs3) \<Rightarrow> (None, [fs1, fs2, fs3])))))"

definition LocalStorage_Upload ::
  "(string \<Rightarrow> string \<Rightarrow> string) \<Rightarrow> LocalStorage \<Rightarrow> string \<Rightarrow> bytes \<Rightarrow> upload_faults
     \<Rightarrow> filesystem \<Rightarrow> string option \<times> filesystem" where
  "LocalStorage_Upload join s name data faults fs =
     (case LocalStorage_Upload_steps join s name data faults fs of
        (r, states) \<Rightarrow> (r, last (fs # states)))"

definition LocalStorage_Delete ::
  "(string \<Rightarrow> string \<Rightarrow> string) \<Rightarrow> LocalStorage \<Rightarrow> string \<Rightarrow> string option \<Rightarrow> filesystem
     \<Rightarrow> string option \<times> filesystem" where
  "LocalStorage_Delete join s name remove_fault fs =
     (let path = database_file join s name in
      case os_Remove remove_fault path fs of
        (Some err, fs1) \<Rightarrow>
          if \<not> IsNotExist err
          then (Some (''failed to delete database: '' @ os_error_text err), fs1)
          else (None, fs1)
      | (None, fs1) \<Rightarrow> (None, fs1))"

definition LocalStorage_Exists ::
  "(string \<Rightarrow> string \<Rightarrow> string) \<Rightarrow> LocalStorage \<Rightarrow> string \<Rightarrow> string option \<Rightarrow> filesystem
     \<Rightarrow> bool \<times> string option" where
  "LocalStorage_Exists join s name stat_fault fs =
     (let path = database_file join s name in
      case os_Stat stat_fault path fs of
        None \<Rightarrow> (True, None)
      | Some err \<Rightarrow>
          if IsNotExist err then (False, None) else (False, Some (os_error_text err)))"

section \<open>The local cache of the database\<close>

text \<open>
  \<open>DatabaseCache\<close>. Its \<open>storage\<close> is an interface: \<open>Download\<close> takes the answer of
  \<open>c.storage.Download\<close> (an error, \<open>None\<close> for an absent database, or the content).
  \<open>now\<close> is the value of \<open>time.Now()\<close>.
\<close>

record DatabaseCache =
  localPath :: string
  lastSync :: nat
  ttlMinutes :: int
  dbName :: string

definition DatabaseCache_Download ::
  "string + bytes option \<Rightarrow> string option \<Rightarrow> (nat \<times> string) option \<Rightarrow> nat \<Rightarrow> DatabaseCache
     \<Rightarrow> filesystem \<Rightarrow> string option \<times> DatabaseCache \<times> filesystem" where
  "DatabaseCache_Download answer create_fault copy_fault now c fs =
     (case answer of
        Inl err \<Rightarrow> (Some (''failed to download database: '' @ err), c, fs)
      | Inr None \<Rightarrow>
          (case os_Create create_fault (localPath c) fs of
             (Some err, fs1) \<Rightarrow>
               (Some (''failed to create empty database: '' @ os_error_text err), c, fs1)
           | (None, fs1) \<Rightarrow> (None, c\<lparr>lastSync := now\<rparr>, fs1))
      | Inr (Some data) \<Rightarrow>
          (case os_Create create_fault (localPath c) fs of
             (Some err, fs1) \<Rightarrow>
               (Some (''failed to create local database file: '' @ os_error_text err), c, fs1)
           | (None, fs1) \<Rightarrow>
               (case io_Copy copy_fault (localPath c) data fs1 of
                  (Some err, fs2) \<Rightarrow>
                    (Some (''failed to write database to local file: '' @ err), c, fs2)
                | (None, fs2) \<Rightarrow> (None, c\<lparr>lastSync := now\<rparr>, fs2))))"

section \<open>What stays true of the backend\<close>

text \<open>
  What holds of every connection the backend can reach: it is in a transaction exactly
  when it holds a transaction handle, and its status is idle exactly when it is not in
  a transaction.
\<close>

definition conn_ok :: "ConnectionState \<Rightarrow> bool" where
  "conn_ok conn = ((InTx conn \<longleftrightarrow> Tx conn \<noteq> None) \<and> (TxStatus conn = TxIdle \<longleftrightarrow> \<not> InTx conn))"

definition backend_ok :: "SQLiteBackend \<Rightarrow> bool" where
  "backend_ok b = (\<forall>connectionID conn. connections b connectionID = Some conn \<longrightarrow> conn_ok conn)"


text \<open>
  A statement handle is bound when some connection's \<open>PreparedStmts\<close> maps a name to
  it. What stays true of the prepared statements: every statement that is still open
  is bound; bound handles were all handed out already; and no handle is bound twice.
\<close>

definition bound_to :: "SQLiteBackend \<Rightarrow> nat \<Rightarrow> string \<Rightarrow> string \<Rightarrow> bool" where
  "bound_to b stmt c name =
     (\<exists>conn. connections b c = Some conn \<and> PreparedStmts conn name = Some stmt)"

definition stmts_ok :: "SQLiteBackend \<Rightarrow> bool" where
  "stmts_ok b =
     ((\<forall>stmt \<in> open_stmts (db b). \<exists>c name. bound_to b stmt c name)
      \<and> (\<forall>stmt c name. bound_to b stmt c name \<longrightarrow> stmt < next_handle (db b))
      \<and> (\<forall>stmt c name c' name'.
            bound_to b stmt c name \<and> bound_to b stmt c' name' \<longrightarrow> c = c' \<and> name = name'))"

text \<open>The statement that \<open>Prepare\<close> and \<open>ClosePrepared\<close> close, if any.\<close>

definition closing :: "nat option \<Rightarrow> nat set" where
  "closing old = (case old of Some stmt \<Rightarrow> {stmt} | None \<Rightarrow> {})"

section \<open>Concrete states\<close>

text \<open>
  A transaction manager and a handler, both new, around a backend that has gone through
  the given operations. They serve as the concrete cases of the theorems.
\<close>

definition manager_after :: "backend_op list \<Rightarrow> TransactionManager" where
  "manager_after ops =
     NewTransactionManager (run_ops ops (NewSQLiteBackend ''app.sqlite'' ''deferred''))"


definition example_manager :: TransactionManager where
  "example_manager = manager_after [OpBegin ''c1'' ''deferred'' None None]"

section \<open>Properties of the string functions\<close>

lemma HasPrefix_iff: "HasPrefix s p \<longleftrightarrow> (\<exists>w. s = p @ w)"
  by (induction s p rule: HasPrefix.induct) auto

lemma Contains_iff: "Contains s p \<longleftrightarrow> (\<exists>u w. s = u @ p @ w)"
proof (induction s)
  case Nil
  show ?case by auto
next
  case (Cons c s)
  show ?case
  proof
    assume "Contains (c # s) p"
    then consider "HasPrefix (c # s) p" | "Contains s p" by auto
    then show "\<exists>u w. c # s = u @ p @ w"
    proof cases
      case 1
      then obtain w where "c # s = p @ w" unfolding HasPrefix_iff ..
      then have "c # s = [] @ p @ w" by simp
      then show ?thesis by blast
    next
      case 2
      then obtain u w where "s = u @ p @ w" using Cons.IH by blast
      then have "c # s = (c # u) @ p @ w" by simp
      then show ?thesis by blast
    qed
  next
    assume "\<exists>u w. c # s = u @ p @ w"
    then obtain u w where eq: "c # s = u @ p @ w" by blast
    show "Contains (c # s) p"
    proof (cases u)
      case Nil
      with eq have "HasPrefix (c # s) p" unfolding HasPrefix_iff by auto
      then show ?thesis by simp
    next
      case (Cons a u')
      with eq have "s = u' @ p @ w" by simp
      then have "Contains s p" using Cons.IH by blast
      then show ?thesis by simp
    qed
  qed
qed



lemma MapSQLiteError_first_match:
  "MapSQLiteError (Some msg) = first_match msg sqlite_error_table"
  by (simp add: MapSQLiteError_def sqlite_error_table_def)

section \<open>Properties of the local blob storage\<close>

lemma Upload_steps_visible:
  "list_all (\<lambda>st. st (database_file join s name) = fs (database_file join s name)
                 \<or> st (database_file join s name) = Some data)
     (snd (LocalStorage_Upload_steps join s name data faults fs))"
  by (auto simp: LocalStorage_Upload_steps_def Let_def os_Create_def io_Copy_def
        os_Rename_def os_Remove_def
      split: option.splits prod.splits)

lemma Upload_success_content:
  "fst (LocalStorage_Upload join s name data faults fs) = None \<Longrightarrow>
   snd (LocalStorage_Upload join s name data faults fs) (database_file join s name) = Some data"
  by (auto simp: LocalStorage_Upload_def LocalStorage_Upload_steps_def Let_def os_Create_def
        io_Copy_def os_Rename_def os_Remove_def
      split: option.splits prod.splits if_splits)

lemma Upload_failure_content:
  "fst (LocalStorage_Upload join s name data faults fs) = Some err \<Longrightarrow>
   snd (LocalStorage_Upload join s name data faults fs) (database_file join s name)
     = fs (database_file join s name)"
  by (auto simp: LocalStorage_Upload_def LocalStorage_Upload_steps_def Let_def os_Create_def
        io_Copy_def os_Rename_def os_Remove_def
      split: option.splits prod.splits if_splits)

lemma Download_present:
  "fs (database_file join s name) = Some data \<Longrightarrow>
   LocalStorage_Download join s name open_fault fs =
     (case open_fault of None \<Rightarrow> Inr (Some data)
      | Some msg \<Rightarrow> Inl (''failed to open database file: '' @ msg))"
  by (simp add: LocalStorage_Download_def os_Open_def Let_def split: option.splits)

lemma Upload_no_faults_steps:
  "LocalStorage_Upload_steps join s name data no_faults fs =
     (None,
      [fs(database_file join s name @ ''.tmp'' \<mapsto> []),
       fs(database_file join s name @ ''.tmp'' \<mapsto> data),
       (fs(database_file join s name @ ''.tmp'' := None))(database_file join s name \<mapsto> data)])"
  by (simp add: LocalStorage_Upload_steps_def Let_def os_Create_def io_Copy_def os_Rename_def
      no_faults_def)

lemma Delete_absent:
  "fs (database_file join s name) = None \<Longrightarrow>
   LocalStorage_Delete join s name None fs = (None, fs)"
  by (simp add: LocalStorage_Delete_def os_Remove_def Let_def)

lemma Delete_success_absent:
  "fst (LocalStorage_Delete join s name remove_fault fs) = None \<Longrightarrow>
   snd (LocalStorage_Delete join s name remove_fault fs) (database_file join s name) = None"
  by (auto simp: LocalStorage_Delete_def os_Remove_def Let_def split: option.splits if_splits)

lemma Exists_absent:
  "fs (database_file join s name) = None \<Longrightarrow>
   fst (LocalStorage_Exists join s name stat_fault fs) = False
   \<and> LocalStorage_Exists join s name None fs = (False, None)"
  by (simp add: LocalStorage_Exists_def os_Stat_def Let_def split: option.splits)

section \<open>Properties of the backend\<close>

lemmas engine_defs = record_call_def db_Begin_def handle_Exec_def handle_Query_def
  handle_Prepare_def tx_Commit_def tx_Rollback_def stmt_Close_def stmt_Query_def

lemma GetOrCreateConnection_cases:
  "GetOrCreateConnection c b = (conn, b') \<Longrightarrow>
     (connections b c = Some conn \<and> b' = b)
   \<or> (connections b c = None
      \<and> conn = \<lparr>ID = c, Tx = None, InTx = False, TxStatus = TxIdle, PreparedStmts = Map.empty\<rparr>
      \<and> b' = b\<lparr>connections := (connections b)(c \<mapsto> conn)\<rparr>)"
  by (auto simp: GetOrCreateConnection_def Let_def split: option.splits)

lemma GetOrCreateConnection_lookup:
  "GetOrCreateConnection c b = (conn, b') \<Longrightarrow> connections b' c = Some conn"
  by (auto simp: GetOrCreateConnection_def Let_def split: option.splits)

lemma GetOrCreateConnection_db:
  "GetOrCreateConnection c b = (conn, b') \<Longrightarrow> db b' = db b"
  by (auto simp: GetOrCreateConnection_def Let_def split: option.splits)

lemma backend_ok_connections:
  "backend_ok b \<Longrightarrow> conn_ok conn \<Longrightarrow>
   backend_ok (b\<lparr>connections := (connections b)(c \<mapsto> conn)\<rparr>)"
  by (simp add: backend_ok_def)

lemma GetOrCreateConnection_ok:
  assumes "backend_ok b" and "GetOrCreateConnection c b = (conn, b')"
  shows "backend_ok b' \<and> conn_ok conn"
proof -
  from GetOrCreateConnection_cases [OF assms(2)]
  consider "connections b c = Some conn" "b' = b"
    | "conn = \<lparr>ID = c, Tx = None, InTx = False, TxStatus = TxIdle, PreparedStmts = Map.empty\<rparr>"
      "b' = b\<lparr>connections := (connections b)(c \<mapsto> conn)\<rparr>"
    by blast
  then show ?thesis
  proof cases
    case 1
    with assms(1) show ?thesis by (auto simp: backend_ok_def)
  next
    case 2
    from 2(1) have "conn_ok conn" by (simp add: conn_ok_def)
    with assms(1) 2(2) show ?thesis by (simp add: backend_ok_connections)
  qed
qed

lemma GetOrCreateConnection_idem:
  "GetOrCreateConnection c b = (conn, b') \<Longrightarrow> GetOrCreateConnection c b' = (conn, b')"
  by (auto simp: GetOrCreateConnection_def Let_def split: option.splits)

lemma backend_ok_update:
  "backend_ok b \<Longrightarrow> conn_ok conn \<Longrightarrow>
   backend_ok (b\<lparr>db := e, connections := (connections b)(c \<mapsto> conn)\<rparr>)"
  by (simp add: backend_ok_def)

lemma backend_ok_db: "backend_ok b \<Longrightarrow> backend_ok (b\<lparr>db := e\<rparr>)"
  by (simp add: backend_ok_def)

lemma BeginTransaction_ok:
  assumes "backend_ok b" shows "backend_ok (snd (BeginTransaction c m bf ef b))"
proof -
  obtain conn b1 where g: "GetOrCreateConnection c b = (conn, b1)" by fastforce
  from GetOrCreateConnection_ok [OF assms g] have ok: "backend_ok b1" "conn_ok conn" by auto
  show ?thesis
    using ok g
    by (auto simp: BeginTransaction_def Let_def conn_ok_def
          intro!: backend_ok_update backend_ok_db split: prod.splits sum.splits)
qed

lemma CommitTransaction_ok:
  assumes "backend_ok b" shows "backend_ok (snd (CommitTransaction c cf b))"
proof -
  obtain conn b1 where g: "GetOrCreateConnection c b = (conn, b1)" by fastforce
  from GetOrCreateConnection_ok [OF assms g] have ok: "backend_ok b1" "conn_ok conn" by auto
  show ?thesis
    using ok g
    by (auto simp: CommitTransaction_def tx_Commit_def conn_ok_def
          intro!: backend_ok_update backend_ok_db split: prod.splits option.splits)
qed

lemma RollbackTransaction_ok:
  assumes "backend_ok b" shows "backend_ok (snd (RollbackTransaction c rf b))"
proof -
  obtain conn b1 where g: "GetOrCreateConnection c b = (conn, b1)" by fastforce
  from GetOrCreateConnection_ok [OF assms g] have ok: "backend_ok b1" "conn_ok conn" by auto
  show ?thesis
    using ok g
    by (auto simp: RollbackTransaction_def tx_Rollback_def conn_ok_def
          intro!: backend_ok_update backend_ok_db split: prod.splits option.splits)
qed

lemma Query_ok:
  assumes "backend_ok b" shows "backend_ok (snd (Query c q args r b))"
proof -
  obtain conn b1 where g: "GetOrCreateConnection c b = (conn, b1)" by fastforce
  from GetOrCreateConnection_ok [OF assms g] have ok: "backend_ok b1" "conn_ok conn" by auto
  show ?thesis
    using ok g by (auto simp: Query_def handle_Query_def intro!: backend_ok_db)
qed

lemma Exec_ok:
  assumes "backend_ok b" shows "backend_ok (snd (Exec c q args r b))"
proof -
  obtain conn b1 where g: "GetOrCreateConnection c b = (conn, b1)" by fastforce
  from GetOrCreateConnection_ok [OF assms g] have ok: "backend_ok b1" "conn_ok conn" by auto
  show ?thesis
    using ok g by (auto simp: Exec_def handle_Exec_def intro!: backend_ok_db)
qed

lemma Prepare_ok:
  assumes "backend_ok b" shows "backend_ok (snd (Prepare c n q cf pf b))"
proof -
  obtain conn b1 where g: "GetOrCreateConnection c b = (conn, b1)" by fastforce
  from GetOrCreateConnection_ok [OF assms g] have ok: "backend_ok b1" "conn_ok conn" by auto
  show ?thesis
    using ok g
    by (auto simp: Prepare_def Let_def conn_ok_def
          intro!: backend_ok_update backend_ok_db split: prod.splits sum.splits)
qed

lemma ClosePrepared_ok:
  assumes "backend_ok b" shows "backend_ok (snd (ClosePrepared c n cf b))"
proof -
  obtain conn b1 where g: "GetOrCreateConnection c b = (conn, b1)" by fastforce
  from GetOrCreateConnection_ok [OF assms g] have ok: "backend_ok b1" "conn_ok conn" by auto
  show ?thesis
    using ok g
    by (auto simp: ClosePrepared_def stmt_Close_def conn_ok_def
          intro!: backend_ok_update backend_ok_db split: prod.splits option.splits)
qed

lemma apply_op_ok: "backend_ok b \<Longrightarrow> backend_ok (apply_op op b)"
  by (cases op)
     (simp_all add: BeginTransaction_ok CommitTransaction_ok RollbackTransaction_ok Query_ok
        Exec_ok Prepare_ok ClosePrepared_ok)

lemma run_ops_ok: "backend_ok b \<Longrightarrow> backend_ok (run_ops ops b)"
  unfolding run_ops_def by (induction ops arbitrary: b) (simp_all add: apply_op_ok)

lemma NewSQLiteBackend_ok: "backend_ok (NewSQLiteBackend path mode)"
  by (simp add: backend_ok_def NewSQLiteBackend_def)

lemma reachable_ok: "backend_ok (run_ops ops (NewSQLiteBackend path mode))"
  by (simp add: run_ops_ok NewSQLiteBackend_ok)

lemma conn_of_ok: "backend_ok b \<Longrightarrow> conn_ok (conn_of c b)"
  unfolding conn_of_def using GetOrCreateConnection_ok [of b c] by (metis prod.collapse)

lemma status_of_conn: "status_of c b = TxStatus (conn_of c b)"
  by (simp add: status_of_def conn_of_def GetTransactionStatus_def split: prod.splits)

lemma status_of_lookup:
  "connections b c = Some conn \<Longrightarrow> status_of c b = TxStatus conn"
  by (simp add: status_of_def GetTransactionStatus_def GetOrCreateConnection_def)

lemma conn_of_lookup:
  "connections b c = Some conn \<Longrightarrow> conn_of c b = conn"
  by (simp add: conn_of_def GetOrCreateConnection_def)

lemma status_of_get:
  "GetOrCreateConnection c b = (conn, b1) \<Longrightarrow> status_of c b = TxStatus conn"
  by (simp add: status_of_def GetTransactionStatus_def)

lemma conn_of_get:
  "GetOrCreateConnection c b = (conn, b1) \<Longrightarrow> conn_of c b = conn \<and> conn_of c b1 = conn"
  by (auto simp: conn_of_def GetOrCreateConnection_def Let_def split: option.splits)

lemma not_idle_known:
  assumes "GetOrCreateConnection c b = (conn, b1)" and "TxStatus conn \<noteq> TxIdle \<or> InTx conn"
  shows "b1 = b \<and> connections b c = Some conn"
  using GetOrCreateConnection_cases [OF assms(1)] assms(2) by auto

lemma Begin_succeeds:
  assumes g: "GetOrCreateConnection c b = (conn, b1)" and "\<not> InTx conn"
  shows "fst (BeginTransaction c m None None b) = None"
  using assms
  by (simp add: BeginTransaction_def begin_in_mode_def db_Begin_def handle_Exec_def Let_def)

lemma Begin_success_status:
  assumes "fst (BeginTransaction c m bf ef b) = None"
  shows "status_of c (snd (BeginTransaction c m bf ef b)) = TxInTransaction"
proof -
  obtain conn b1 where g: "GetOrCreateConnection c b = (conn, b1)" by fastforce
  show ?thesis
    using assms g
    by (auto simp: BeginTransaction_def Let_def status_of_lookup
        split: prod.splits sum.splits if_splits)
qed

lemma Begin_while_active:
  assumes g: "GetOrCreateConnection c b = (conn, b1)" and "InTx conn"
  shows "BeginTransaction c m bf ef b = (Some ''transaction already in progress'', b)"
  using not_idle_known [OF g] assms by (simp add: BeginTransaction_def)

lemma Commit_active:
  assumes g: "GetOrCreateConnection c b = (conn, b1)" and "InTx conn" and "Tx conn = Some tx"
  shows "fst (CommitTransaction c None b) = None"
    and "status_of c (snd (CommitTransaction c None b)) = TxIdle"
    and "fst (CommitTransaction c (Some e) b) = Some (''failed to commit transaction: '' @ e)"
    and "status_of c (snd (CommitTransaction c (Some e) b)) = TxFailed"
  using assms by (simp_all add: CommitTransaction_def tx_Commit_def status_of_lookup)

lemma Commit_idle:
  assumes g: "GetOrCreateConnection c b = (conn, b1)" and "\<not> InTx conn \<or> Tx conn = None"
  shows "CommitTransaction c cf b = (Some ''no transaction in progress'', b1)"
  using assms by (auto simp: CommitTransaction_def split: option.splits)

lemma Rollback_success_status:
  assumes "fst (RollbackTransaction c rf b) = None"
  shows "status_of c (snd (RollbackTransaction c rf b)) = TxIdle"
proof -
  obtain conn b1 where g: "GetOrCreateConnection c b = (conn, b1)" by fastforce
  show ?thesis
    using assms g
    by (auto simp: RollbackTransaction_def tx_Rollback_def status_of_lookup
        split: prod.splits option.splits if_splits)
qed

section \<open>Properties of the manager, the handler and the prepared statements\<close>

lemma Commit_error_keeps_manager:
  assumes "fst (CommitTransaction c cf (backend tm)) = Some err"
  shows "fst (TransactionManager_Commit c cf tm) = Some err
     \<and> uploadPending (snd (TransactionManager_Commit c cf tm)) = uploadPending tm
     \<and> uploadChan (snd (TransactionManager_Commit c cf tm)) = uploadChan tm"
  using assms by (auto simp: TransactionManager_Commit_def split: prod.splits option.splits)

lemma Commit_success_signals:
  assumes "fst (CommitTransaction c cf (backend tm)) = None"
  shows "fst (TransactionManager_Commit c cf tm) = None
     \<and> uploadPending (snd (TransactionManager_Commit c cf tm))
     \<and> uploadChan (snd (TransactionManager_Commit c cf tm)) =
         (if length (uploadChan tm) < uploadChan_capacity then uploadChan tm @ [True]
          else uploadChan tm)"
  using assms
  by (auto simp: TransactionManager_Commit_def try_send_def split: prod.splits option.splits)

lemma Commit_backend:
  "backend (snd (TransactionManager_Commit c cf tm)) = snd (CommitTransaction c cf (backend tm))"
  by (auto simp: TransactionManager_Commit_def split: prod.splits option.splits)

lemma Commit_capacity:
  "length (uploadChan tm) \<le> uploadChan_capacity \<Longrightarrow>
   length (uploadChan (snd (TransactionManager_Commit c cf tm))) \<le> uploadChan_capacity"
  by (auto simp: TransactionManager_Commit_def try_send_def split: prod.splits option.splits)

lemma Commit_engine_result:
  assumes "InTx (conn_of c b)" and "Tx (conn_of c b) = Some tx"
  shows "fst (CommitTransaction c None b) = None"
    and "fst (CommitTransaction c (Some e) b) = Some (''failed to commit transaction: '' @ e)"
    and "calls (db (snd (CommitTransaction c cf b))) = calls (db b) @ [CallCommit tx]"
proof -
  obtain conn b1 where g: "GetOrCreateConnection c b = (conn, b1)" by fastforce
  with assms have i: "InTx conn" "Tx conn = Some tx" by (simp_all add: conn_of_def)
  from Commit_active [OF g i]
  show "fst (CommitTransaction c None b) = None"
    and "fst (CommitTransaction c (Some e) b) = Some (''failed to commit transaction: '' @ e)"
    by simp_all
  from g i GetOrCreateConnection_db [OF g]
  show "calls (db (snd (CommitTransaction c cf b))) = calls (db b) @ [CallCommit tx]"
    by (auto simp: CommitTransaction_def tx_Commit_def record_call_def split: option.splits)
qed

lemma Query_call:
  "fst (Query c q args r b) = r
   \<and> calls (db (snd (Query c q args r b)))
       = calls (db b) @ [CallQuery (active_handle (conn_of c b)) q args]"
proof -
  obtain conn b1 where g: "GetOrCreateConnection c b = (conn, b1)" by fastforce
  with GetOrCreateConnection_db [OF g] show ?thesis
    by (simp add: Query_def handle_Query_def record_call_def conn_of_def)
qed

lemma Exec_call:
  "fst (Exec c q args r b) = r
   \<and> calls (db (snd (Exec c q args r b)))
       = calls (db b) @ [CallExec (active_handle (conn_of c b)) q args]"
proof -
  obtain conn b1 where g: "GetOrCreateConnection c b = (conn, b1)" by fastforce
  with GetOrCreateConnection_db [OF g] show ?thesis
    by (simp add: Exec_def handle_Exec_def record_call_def conn_of_def)
qed

lemma active_handle_cases:
  "(InTx conn \<and> Tx conn = Some tx \<longrightarrow> active_handle conn = TX tx)
   \<and> (\<not> InTx conn \<or> Tx conn = None \<longrightarrow> active_handle conn = DB)"
  by (auto simp: active_handle_def split: option.splits)




lemma bound_to_conn_of: "bound_to b stmt c name \<longleftrightarrow> PreparedStmts (conn_of c b) name = Some stmt"
  by (auto simp: bound_to_def conn_of_def GetOrCreateConnection_def Let_def split: option.splits)

lemma stmts_ok_frame:
  assumes "stmts_ok b"
    and "\<And>stmt c name. bound_to b' stmt c name = bound_to b stmt c name"
    and "open_stmts (db b') \<subseteq> open_stmts (db b)"
    and "next_handle (db b) \<le> next_handle (db b')"
  shows "stmts_ok b'"
proof -
  from assms(1) have a1: "\<And>stmt. stmt \<in> open_stmts (db b) \<Longrightarrow> \<exists>c name. bound_to b stmt c name"
    and a2: "\<And>stmt c name. bound_to b stmt c name \<Longrightarrow> stmt < next_handle (db b)"
    and a3: "\<And>stmt c name c' name'. bound_to b stmt c name \<Longrightarrow> bound_to b stmt c' name'
        \<Longrightarrow> c = c' \<and> name = name'"
    unfolding stmts_ok_def by blast+
  have p1: "\<forall>stmt \<in> open_stmts (db b'). \<exists>c name. bound_to b' stmt c name"
    using a1 assms(2,3) by auto
  have p2: "\<forall>stmt c name. bound_to b' stmt c name \<longrightarrow> stmt < next_handle (db b')"
    using a2 assms(2,4) by (auto intro: order_less_le_trans)
  have p3: "\<forall>stmt c name c' name'.
      bound_to b' stmt c name \<and> bound_to b' stmt c' name' \<longrightarrow> c = c' \<and> name = name'"
    using a3 assms(2) by auto
  from p1 p2 p3 show ?thesis unfolding stmts_ok_def by blast
qed

lemma GetOrCreateConnection_bound:
  "GetOrCreateConnection c b = (conn, b1) \<Longrightarrow> bound_to b1 stmt c' name = bound_to b stmt c' name"
  by (auto simp: GetOrCreateConnection_def Let_def bound_to_def split: option.splits if_splits)

lemma bound_to_same_stmts:
  assumes "connections b c = Some conn" and "PreparedStmts conn' = PreparedStmts conn"
  shows "bound_to (b\<lparr>db := e, connections := (connections b)(c \<mapsto> conn')\<rparr>) stmt c' name
       = bound_to b stmt c' name"
  using assms by (auto simp: bound_to_def)

lemma bound_to_db: "bound_to (b\<lparr>db := e\<rparr>) stmt c' name = bound_to b stmt c' name"
  by (simp add: bound_to_def)

lemma Begin_bound:
  "bound_to (snd (BeginTransaction c m bf ef b)) stmt c' name = bound_to b stmt c' name"
proof -
  obtain conn b1 where g: "GetOrCreateConnection c b = (conn, b1)" by fastforce
  have l: "connections b1 c = Some conn" using g by (rule GetOrCreateConnection_lookup)
  show ?thesis
    using g l GetOrCreateConnection_bound [OF g]
    by (auto simp: BeginTransaction_def Let_def bound_to_same_stmts bound_to_db
        split: prod.splits sum.splits)
qed

lemma Commit_bound:
  "bound_to (snd (CommitTransaction c cf b)) stmt c' name = bound_to b stmt c' name"
proof -
  obtain conn b1 where g: "GetOrCreateConnection c b = (conn, b1)" by fastforce
  have l: "connections b1 c = Some conn" using g by (rule GetOrCreateConnection_lookup)
  show ?thesis
    using g l GetOrCreateConnection_bound [OF g]
    by (auto simp: CommitTransaction_def tx_Commit_def bound_to_same_stmts bound_to_db
        split: prod.splits option.splits)
qed

lemma Rollback_bound:
  "bound_to (snd (RollbackTransaction c rf b)) stmt c' name = bound_to b stmt c' name"
proof -
  obtain conn b1 where g: "GetOrCreateConnection c b = (conn, b1)" by fastforce
  have l: "connections b1 c = Some conn" using g by (rule GetOrCreateConnection_lookup)
  show ?thesis
    using g l GetOrCreateConnection_bound [OF g]
    by (auto simp: RollbackTransaction_def tx_Rollback_def bound_to_same_stmts bound_to_db
        split: prod.splits option.splits)
qed

lemma Query_bound:
  "bound_to (snd (Query c q args r b)) stmt c' name = bound_to b stmt c' name"
proof -
  obtain conn b1 where g: "GetOrCreateConnection c b = (conn, b1)" by fastforce
  show ?thesis
    using g GetOrCreateConnection_bound [OF g]
    by (simp add: Query_def handle_Query_def bound_to_db)
qed

lemma Exec_bound:
  "bound_to (snd (Exec c q args r b)) stmt c' name = bound_to b stmt c' name"
proof -
  obtain conn b1 where g: "GetOrCreateConnection c b = (conn, b1)" by fastforce
  show ?thesis
    using g GetOrCreateConnection_bound [OF g]
    by (simp add: Exec_def handle_Exec_def bound_to_db)
qed

lemma Begin_engine:
  "open_stmts (db (snd (BeginTransaction c m bf ef b))) = open_stmts (db b)
   \<and> next_handle (db b) \<le> next_handle (db (snd (BeginTransaction c m bf ef b)))"
proof -
  obtain conn b1 where g: "GetOrCreateConnection c b = (conn, b1)" by fastforce
  show ?thesis
    using g GetOrCreateConnection_db [OF g]
    by (auto simp: BeginTransaction_def Let_def begin_in_mode_def engine_defs
        split: prod.splits sum.splits option.splits if_splits)
qed

lemma Commit_engine:
  "open_stmts (db (snd (CommitTransaction c cf b))) = open_stmts (db b)
   \<and> next_handle (db b) \<le> next_handle (db (snd (CommitTransaction c cf b)))"
proof -
  obtain conn b1 where g: "GetOrCreateConnection c b = (conn, b1)" by fastforce
  show ?thesis
    using g GetOrCreateConnection_db [OF g]
    by (auto simp: CommitTransaction_def engine_defs split: prod.splits option.splits if_splits)
qed

lemma Rollback_engine:
  "open_stmts (db (snd (RollbackTransaction c rf b))) = open_stmts (db b)
   \<and> next_handle (db b) \<le> next_handle (db (snd (RollbackTransaction c rf b)))"
proof -
  obtain conn b1 where g: "GetOrCreateConnection c b = (conn, b1)" by fastforce
  show ?thesis
    using g GetOrCreateConnection_db [OF g]
    by (auto simp: RollbackTransaction_def engine_defs split: prod.splits option.splits if_splits)
qed

lemma Query_engine:
  "open_stmts (db (snd (Query c q args r b))) = open_stmts (db b)
   \<and> next_handle (db b) \<le> next_handle (db (snd (Query c q args r b)))"
proof -
  obtain conn b1 where g: "GetOrCreateConnection c b = (conn, b1)" by fastforce
  show ?thesis
    using g GetOrCreateConnection_db [OF g] by (simp add: Query_def engine_defs)
qed

lemma Exec_engine:
  "open_stmts (db (snd (Exec c q args r b))) = open_stmts (db b)
   \<and> next_handle (db b) \<le> next_handle (db (snd (Exec c q args r b)))"
proof -
  obtain conn b1 where g: "GetOrCreateConnection c b = (conn, b1)" by fastforce
  show ?thesis
    using g GetOrCreateConnection_db [OF g] by (simp add: Exec_def engine_defs)
qed

lemma bound_to_rebind:
  assumes "connections b c = Some conn"
  shows "bound_to
           (b\<lparr>db := e,
              connections := (connections b)(c \<mapsto>
                 conn\<lparr>PreparedStmts := (PreparedStmts conn)(name \<mapsto> new)\<rparr>)\<rparr>) stmt c' name'
       = ((c' = c \<and> name' = name \<and> stmt = new)
          \<or> (bound_to b stmt c' name' \<and> \<not> (c' = c \<and> name' = name)))"
  using assms by (auto simp: bound_to_def)

lemma bound_to_unbind:
  assumes "connections b c = Some conn"
  shows "bound_to
           (b\<lparr>db := e,
              connections := (connections b)(c \<mapsto>
                 conn\<lparr>PreparedStmts := (PreparedStmts conn)(name := None)\<rparr>)\<rparr>) stmt c' name'
       = (bound_to b stmt c' name' \<and> \<not> (c' = c \<and> name' = name))"
  using assms by (auto simp: bound_to_def)

lemma Prepare_success:
  "fst (Prepare c name q cf None b) = None
   \<and> (\<forall>stmt c' name'.
        bound_to (snd (Prepare c name q cf None b)) stmt c' name'
        = ((c' = c \<and> name' = name \<and> stmt = next_handle (db b))
           \<or> (bound_to b stmt c' name' \<and> \<not> (c' = c \<and> name' = name))))
   \<and> open_stmts (db (snd (Prepare c name q cf None b)))
       = insert (next_handle (db b))
           (open_stmts (db b) - closing (PreparedStmts (conn_of c b) name))
   \<and> next_handle (db (snd (Prepare c name q cf None b))) = Suc (next_handle (db b))
   \<and> calls (db (snd (Prepare c name q cf None b)))
       = calls (db b)
         @ (case PreparedStmts (conn_of c b) name of
              Some old \<Rightarrow> [CallStmtClose old]
            | None \<Rightarrow> [])
         @ [CallPrepare (active_handle (conn_of c b)) q]"
proof -
  obtain conn b1 where g: "GetOrCreateConnection c b = (conn, b1)" by fastforce
  have l: "connections b1 c = Some conn" using g by (rule GetOrCreateConnection_lookup)
  have d: "db b1 = db b" using g by (rule GetOrCreateConnection_db)
  have co: "conn_of c b = conn" using conn_of_get [OF g] by simp
  show ?thesis
    using g l d co GetOrCreateConnection_bound [OF g]
    by (auto simp: Prepare_def Let_def engine_defs closing_def bound_to_rebind
        split: option.splits)
qed

lemma Prepare_failure:
  "fst (Prepare c name q cf (Some err) b) = Some (''failed to prepare statement: '' @ err)
   \<and> (\<forall>stmt c' name'.
        bound_to (snd (Prepare c name q cf (Some err) b)) stmt c' name'
        = bound_to b stmt c' name')
   \<and> open_stmts (db (snd (Prepare c name q cf (Some err) b)))
       = open_stmts (db b) - closing (PreparedStmts (conn_of c b) name)
   \<and> next_handle (db (snd (Prepare c name q cf (Some err) b))) = next_handle (db b)"
proof -
  obtain conn b1 where g: "GetOrCreateConnection c b = (conn, b1)" by fastforce
  have d: "db b1 = db b" using g by (rule GetOrCreateConnection_db)
  have co: "conn_of c b = conn" using conn_of_get [OF g] by simp
  show ?thesis
    using g d co GetOrCreateConnection_bound [OF g]
    by (auto simp: Prepare_def Let_def engine_defs closing_def bound_to_db
        split: option.splits)
qed

lemma ClosePrepared_result:
  "(\<forall>stmt c' name'.
      bound_to (snd (ClosePrepared c name cf b)) stmt c' name'
      = (bound_to b stmt c' name'
         \<and> (fst (ClosePrepared c name cf b) = None \<longrightarrow> \<not> (c' = c \<and> name' = name))))
   \<and> open_stmts (db (snd (ClosePrepared c name cf b)))
       = open_stmts (db b) - closing (PreparedStmts (conn_of c b) name)
   \<and> next_handle (db (snd (ClosePrepared c name cf b))) = next_handle (db b)"
proof -
  obtain conn b1 where g: "GetOrCreateConnection c b = (conn, b1)" by fastforce
  have l: "connections b1 c = Some conn" using g by (rule GetOrCreateConnection_lookup)
  have d: "db b1 = db b" using g by (rule GetOrCreateConnection_db)
  have co: "conn_of c b = conn" using conn_of_get [OF g] by simp
  have bc: "\<And>stmt. bound_to b1 stmt c name = (PreparedStmts conn name = Some stmt)"
    using l by (simp add: bound_to_def)
  show ?thesis
    using g l d co bc GetOrCreateConnection_bound [OF g]
    by (auto simp: ClosePrepared_def engine_defs closing_def bound_to_db bound_to_unbind
        split: option.splits)
qed

lemma closing_bound:
  "stmt \<in> closing (PreparedStmts (conn_of c b) name) \<longleftrightarrow> bound_to b stmt c name"
  by (auto simp: closing_def bound_to_conn_of split: option.splits)

lemma Prepare_stmts_ok:
  assumes "stmts_ok b" shows "stmts_ok (snd (Prepare c name q cf pf b))"
proof (cases pf)
  case None
  note r = Prepare_success [of c name q cf b]
  let ?b' = "snd (Prepare c name q cf None b)"
  have bd: "\<And>stmt c' name'. bound_to ?b' stmt c' name'
      = ((c' = c \<and> name' = name \<and> stmt = next_handle (db b))
         \<or> (bound_to b stmt c' name' \<and> \<not> (c' = c \<and> name' = name)))"
    using r by blast
  have op: "open_stmts (db ?b')
      = insert (next_handle (db b))
          (open_stmts (db b) - closing (PreparedStmts (conn_of c b) name))"
    using r by blast
  have nx: "next_handle (db ?b') = Suc (next_handle (db b))" using r by blast
  from assms have a1: "\<And>stmt. stmt \<in> open_stmts (db b) \<Longrightarrow> \<exists>c name. bound_to b stmt c name"
    and a2: "\<And>stmt c name. bound_to b stmt c name \<Longrightarrow> stmt < next_handle (db b)"
    and a3: "\<And>stmt c name c' name'. bound_to b stmt c name \<Longrightarrow> bound_to b stmt c' name'
        \<Longrightarrow> c = c' \<and> name = name'"
    unfolding stmts_ok_def by blast+
  have p1: "\<forall>stmt \<in> open_stmts (db ?b'). \<exists>c' name'. bound_to ?b' stmt c' name'"
  proof
    fix stmt assume "stmt \<in> open_stmts (db ?b')"
    then consider "stmt = next_handle (db b)"
      | "stmt \<in> open_stmts (db b)" "\<not> bound_to b stmt c name"
      by (auto simp: op closing_bound)
    then show "\<exists>c' name'. bound_to ?b' stmt c' name'"
    proof cases
      case 1
      then show ?thesis unfolding bd by blast
    next
      case 2
      from a1 [OF 2(1)] obtain c' name' where "bound_to b stmt c' name'" by blast
      with 2(2) show ?thesis unfolding bd by blast
    qed
  qed
  have p2: "\<forall>stmt c' name'. bound_to ?b' stmt c' name' \<longrightarrow> stmt < next_handle (db ?b')"
    unfolding bd nx using a2 by (auto simp: less_Suc_eq)
  have p3: "\<forall>stmt c1 n1 c2 n2. bound_to ?b' stmt c1 n1 \<and> bound_to ?b' stmt c2 n2
      \<longrightarrow> c1 = c2 \<and> n1 = n2"
    unfolding bd using a2 a3 by (metis less_irrefl)
  from p1 p2 p3 None show ?thesis unfolding stmts_ok_def by blast
next
  case (Some err)
  note r = Prepare_failure [of c name q cf err b]
  show ?thesis
    unfolding Some
  proof (rule stmts_ok_frame [OF assms])
    show "\<And>stmt c' name'.
        bound_to (snd (Prepare c name q cf (Some err) b)) stmt c' name' = bound_to b stmt c' name'"
      using r by blast
    show "open_stmts (db (snd (Prepare c name q cf (Some err) b))) \<subseteq> open_stmts (db b)"
      using r by blast
    show "next_handle (db b) \<le> next_handle (db (snd (Prepare c name q cf (Some err) b)))"
      using r by simp
  qed
qed

lemma ClosePrepared_stmts_ok:
  assumes "stmts_ok b" shows "stmts_ok (snd (ClosePrepared c name cf b))"
proof (cases "fst (ClosePrepared c name cf b) = None")
  case False
  note r = ClosePrepared_result [of c name cf b]
  show ?thesis
  proof (rule stmts_ok_frame [OF assms])
    show "\<And>stmt c' name'.
        bound_to (snd (ClosePrepared c name cf b)) stmt c' name' = bound_to b stmt c' name'"
      using r False by simp
    show "open_stmts (db (snd (ClosePrepared c name cf b))) \<subseteq> open_stmts (db b)"
      using r by blast
    show "next_handle (db b) \<le> next_handle (db (snd (ClosePrepared c name cf b)))"
      using r by simp
  qed
next
  case True
  note r = ClosePrepared_result [of c name cf b]
  let ?b' = "snd (ClosePrepared c name cf b)"
  have bd: "\<And>stmt c' name'. bound_to ?b' stmt c' name'
      = (bound_to b stmt c' name' \<and> \<not> (c' = c \<and> name' = name))"
    using r True by simp
  have op: "open_stmts (db ?b')
      = open_stmts (db b) - closing (PreparedStmts (conn_of c b) name)"
    using r by blast
  have nx: "next_handle (db ?b') = next_handle (db b)" using r by blast
  from assms have a1: "\<And>stmt. stmt \<in> open_stmts (db b) \<Longrightarrow> \<exists>c name. bound_to b stmt c name"
    and a2: "\<And>stmt c name. bound_to b stmt c name \<Longrightarrow> stmt < next_handle (db b)"
    and a3: "\<And>stmt c name c' name'. bound_to b stmt c name \<Longrightarrow> bound_to b stmt c' name'
        \<Longrightarrow> c = c' \<and> name = name'"
    unfolding stmts_ok_def by blast+
  have p1: "\<forall>stmt \<in> open_stmts (db ?b'). \<exists>c' name'. bound_to ?b' stmt c' name'"
  proof
    fix stmt assume "stmt \<in> open_stmts (db ?b')"
    then have o: "stmt \<in> open_stmts (db b)" and n: "\<not> bound_to b stmt c name"
      by (auto simp: op closing_bound)
    from a1 [OF o] obtain c' name' where f: "bound_to b stmt c' name'" by blast
    with n have "\<not> (c' = c \<and> name' = name)" by blast
    with f have "bound_to ?b' stmt c' name'" by (simp add: bd)
    then show "\<exists>c' name'. bound_to ?b' stmt c' name'" by blast
  qed
  have p2: "\<forall>stmt c' name'. bound_to ?b' stmt c' name' \<longrightarrow> stmt < next_handle (db ?b')"
    using a2 by (auto simp: bd nx)
  have p3: "\<forall>stmt c1 n1 c2 n2. bound_to ?b' stmt c1 n1 \<and> bound_to ?b' stmt c2 n2
      \<longrightarrow> c1 = c2 \<and> n1 = n2"
  proof (intro allI impI)
    fix stmt c1 n1 c2 n2
    assume "bound_to ?b' stmt c1 n1 \<and> bound_to ?b' stmt c2 n2"
    then have "bound_to b stmt c1 n1" "bound_to b stmt c2 n2" by (simp_all add: bd)
    then show "c1 = c2 \<and> n1 = n2" by (rule a3)
  qed
  from p1 p2 p3 show ?thesis unfolding stmts_ok_def by blast
qed

lemma apply_op_stmts_ok: "stmts_ok b \<Longrightarrow> stmts_ok (apply_op op b)"
proof (cases op)
  case (OpBegin c m bf ef)
  assume "stmts_ok b"
  then show ?thesis
    unfolding OpBegin apply_op.simps
    by (rule stmts_ok_frame) (simp_all add: Begin_bound Begin_engine)
next
  case (OpCommit c cf)
  assume "stmts_ok b"
  then show ?thesis
    unfolding OpCommit apply_op.simps
    by (rule stmts_ok_frame) (simp_all add: Commit_bound Commit_engine)
next
  case (OpRollback c rf)
  assume "stmts_ok b"
  then show ?thesis
    unfolding OpRollback apply_op.simps
    by (rule stmts_ok_frame) (simp_all add: Rollback_bound Rollback_engine)
next
  case (OpQuery c q args)
  assume "stmts_ok b"
  then show ?thesis
    unfolding OpQuery apply_op.simps
    by (rule stmts_ok_frame) (simp_all add: Query_bound Query_engine)
next
  case (OpExec c q args)
  assume "stmts_ok b"
  then show ?thesis
    unfolding OpExec apply_op.simps
    by (rule stmts_ok_frame) (simp_all add: Exec_bound Exec_engine)
next
  case (OpPrepare c name q cf pf)
  assume "stmts_ok b"
  then show ?thesis unfolding OpPrepare apply_op.simps by (rule Prepare_stmts_ok)
next
  case (OpClosePrepared c name cf)
  assume "stmts_ok b"
  then show ?thesis unfolding OpClosePrepared apply_op.simps by (rule ClosePrepared_stmts_ok)
qed

lemma run_ops_stmts_ok: "stmts_ok b \<Longrightarrow> stmts_ok (run_ops ops b)"
  unfolding run_ops_def by (induction ops arbitrary: b) (simp_all add: apply_op_stmts_ok)

lemma reachable_stmts_ok: "stmts_ok (run_ops ops (NewSQLiteBackend path mode))"
  by (rule run_ops_stmts_ok) (simp add: stmts_ok_def bound_to_def NewSQLiteBackend_def)

lemma Prepare_success_map:
  "PreparedStmts (conn_of c (snd (Prepare c name q cf None b)))
     = (PreparedStmts (conn_of c b))(name \<mapsto> next_handle (db b))"
proof -
  obtain conn b1 where g: "GetOrCreateConnection c b = (conn, b1)" by fastforce
  have d: "db b1 = db b" using g by (rule GetOrCreateConnection_db)
  have co: "conn_of c b = conn" using conn_of_get [OF g] by simp
  show ?thesis
    using g d co
    by (auto simp: Prepare_def Let_def engine_defs conn_of_lookup split: option.splits)
qed

section \<open>Claims about the string-level functions\<close>



text \<open>
  Claim C9, as stated, fails: a message that contains "no such table" is not always
  given class 42P01. The message below also contains "constraint failed", which is
  tested earlier, and gets class 23000.
\<close>

theorem MapSQLiteError_no_such_table_counterexample:
  "Contains ''no such table: constraint failed'' ''no such table''
   \<and> MapSQLiteError (Some ''no such table: constraint failed'') = ''23000''"
  by (simp add: MapSQLiteError_def)

text \<open>
  Claim C9, amended. The translator gives every message the class of the first
  pattern, in the order of the table, that the message contains. So a message
  containing "UNIQUE constraint failed" has class 23505 although it also contains
  "constraint failed"; a message containing "no such table" and none of the eight
  patterns tested before it has class 42P01; and a message containing no pattern of
  the table has class XX000.
\<close>

theorem MapSQLiteError_ordered:
  "MapSQLiteError (Some msg) = first_match msg sqlite_error_table
   \<and> (Contains msg ''UNIQUE constraint failed'' \<longrightarrow>
        Contains msg ''constraint failed'' \<and> MapSQLiteError (Some msg) = ''23505'')
   \<and> (Contains msg ''no such table''
        \<and> list_all (\<lambda>p. \<not> Contains msg p) (take 8 (map fst sqlite_error_table)) \<longrightarrow>
        MapSQLiteError (Some msg) = ''42P01'')
   \<and> (list_all (\<lambda>p. \<not> Contains msg p) (map fst sqlite_error_table) \<longrightarrow>
        MapSQLiteError (Some msg) = ''XX000'')"
proof (intro conjI impI)
  show "MapSQLiteError (Some msg) = first_match msg sqlite_error_table"
    by (rule MapSQLiteError_first_match)
next
  assume u: "Contains msg ''UNIQUE constraint failed''"
  then obtain a b where "msg = a @ ''UNIQUE constraint failed'' @ b"
    unfolding Contains_iff by blast
  then have "msg = (a @ ''UNIQUE '') @ ''constraint failed'' @ b" by simp
  then show "Contains msg ''constraint failed''" unfolding Contains_iff by blast
  from u show "MapSQLiteError (Some msg) = ''23505''" by (simp add: MapSQLiteError_def)
next
  assume "Contains msg ''no such table''
    \<and> list_all (\<lambda>p. \<not> Contains msg p) (take 8 (map fst sqlite_error_table))"
  then show "MapSQLiteError (Some msg) = ''42P01''"
    by (simp add: MapSQLiteError_def sqlite_error_table_def)
next
  assume "list_all (\<lambda>p. \<not> Contains msg p) (map fst sqlite_error_table)"
  then show "MapSQLiteError (Some msg) = ''XX000''"
    by (simp add: MapSQLiteError_def sqlite_error_table_def)
qed

theorem MapSQLiteError_ordered_witness:
  "Contains ''UNIQUE constraint failed: users.email'' ''UNIQUE constraint failed''
   \<and> Contains ''UNIQUE constraint failed: users.email'' ''constraint failed''
   \<and> MapSQLiteError (Some ''UNIQUE constraint failed: users.email'') = ''23505''
   \<and> Contains ''no such table: users'' ''no such table''
   \<and> list_all (\<lambda>p. \<not> Contains ''no such table: users'' p)
         (take 8 (map fst sqlite_error_table))
   \<and> MapSQLiteError (Some ''no such table: users'') = ''42P01''
   \<and> list_all (\<lambda>p. \<not> Contains ''unable to open file'' p) (map fst sqlite_error_table)
   \<and> MapSQLiteError (Some ''unable to open file'') = ''XX000''"
proof -
  have u: "Contains ''UNIQUE constraint failed: users.email'' ''UNIQUE constraint failed''"
    by simp
  have t: "Contains ''no such table: users'' ''no such table''
      \<and> list_all (\<lambda>p. \<not> Contains ''no such table: users'' p)
            (take 8 (map fst sqlite_error_table))"
    by (simp add: sqlite_error_table_def)
  have n: "list_all (\<lambda>p. \<not> Contains ''unable to open file'' p) (map fst sqlite_error_table)"
    by (simp add: sqlite_error_table_def)
  from u t n
    MapSQLiteError_ordered [of "''UNIQUE constraint failed: users.email''"]
    MapSQLiteError_ordered [of "''no such table: users''"]
    MapSQLiteError_ordered [of "''unable to open file''"]
  show ?thesis by blast
qed

section \<open>Claims about the blob storage and the cache\<close>

text \<open>
  Claim C6. On the local file system, whenever an upload of the bytes \<open>data\<close> under a
  name reports success, a download of that name from the resulting file system returns
  exactly \<open>data\<close>. Whatever faults the upload meets, after each of its steps the file
  of that name holds either what it held before the upload or the whole of \<open>data\<close>,
  never a part of it, and after a failed upload it holds what it held before. A run
  without faults is: create the temporary file, write the
  data to it, rename it onto the file of that name.
\<close>

theorem LocalStorage_Upload_roundtrip:
  "(fst (LocalStorage_Upload join s name data faults fs) = None \<longrightarrow>
      LocalStorage_Download join s name None
        (snd (LocalStorage_Upload join s name data faults fs)) = Inr (Some data)
      \<and> LocalStorage_Download join s name (Some msg)
          (snd (LocalStorage_Upload join s name data faults fs))
        = Inl (''failed to open database file: '' @ msg))
   \<and> (fst (LocalStorage_Upload join s name data faults fs) \<noteq> None \<longrightarrow>
        snd (LocalStorage_Upload join s name data faults fs) (database_file join s name)
          = fs (database_file join s name))
   \<and> list_all (\<lambda>st. st (database_file join s name) = fs (database_file join s name)
                    \<or> st (database_file join s name) = Some data)
        (snd (LocalStorage_Upload_steps join s name data faults fs))
   \<and> LocalStorage_Upload_steps join s name data no_faults fs =
        (None,
         [fs(database_file join s name @ ''.tmp'' \<mapsto> []),
          fs(database_file join s name @ ''.tmp'' \<mapsto> data),
          (fs(database_file join s name @ ''.tmp'' := None))
            (database_file join s name \<mapsto> data)])"
proof (intro conjI impI)
  assume "fst (LocalStorage_Upload join s name data faults fs) = None"
  then have c: "snd (LocalStorage_Upload join s name data faults fs) (database_file join s name)
      = Some data"
    by (rule Upload_success_content)
  from c show "LocalStorage_Download join s name None
      (snd (LocalStorage_Upload join s name data faults fs)) = Inr (Some data)"
    by (simp add: Download_present)
  from c show "LocalStorage_Download join s name (Some msg)
      (snd (LocalStorage_Upload join s name data faults fs))
      = Inl (''failed to open database file: '' @ msg)"
    by (simp add: Download_present)
next
  assume "fst (LocalStorage_Upload join s name data faults fs) \<noteq> None"
  then obtain err where "fst (LocalStorage_Upload join s name data faults fs) = Some err"
    by auto
  then show "snd (LocalStorage_Upload join s name data faults fs) (database_file join s name)
      = fs (database_file join s name)"
    by (rule Upload_failure_content)
next
  show "list_all (\<lambda>st. st (database_file join s name) = fs (database_file join s name)
                    \<or> st (database_file join s name) = Some data)
        (snd (LocalStorage_Upload_steps join s name data faults fs))"
    by (rule Upload_steps_visible)
next
  show "LocalStorage_Upload_steps join s name data no_faults fs =
        (None,
         [fs(database_file join s name @ ''.tmp'' \<mapsto> []),
          fs(database_file join s name @ ''.tmp'' \<mapsto> data),
          (fs(database_file join s name @ ''.tmp'' := None))
            (database_file join s name \<mapsto> data)])"
    by (rule Upload_no_faults_steps)
qed

theorem LocalStorage_Upload_roundtrip_witness:
  "fst (LocalStorage_Upload (\<lambda>d f. d @ ''/'' @ f) \<lparr>basePath = ''data''\<rparr> ''db1'' ''hello''
          no_faults Map.empty) = None
   \<and> LocalStorage_Download (\<lambda>d f. d @ ''/'' @ f) \<lparr>basePath = ''data''\<rparr> ''db1'' None
        (snd (LocalStorage_Upload (\<lambda>d f. d @ ''/'' @ f) \<lparr>basePath = ''data''\<rparr> ''db1''
                ''hello'' no_faults Map.empty)) = Inr (Some ''hello'')
   \<and> fst (LocalStorage_Upload (\<lambda>d f. d @ ''/'' @ f) \<lparr>basePath = ''data''\<rparr> ''db1'' ''hello''
          (no_faults\<lparr>on_copy := Some (2, ''disk full'')\<rparr>)
          [''data/db1.sqlite'' \<mapsto> ''old'']) = Some ''failed to write to temp file: disk full''
   \<and> snd (LocalStorage_Upload (\<lambda>d f. d @ ''/'' @ f) \<lparr>basePath = ''data''\<rparr> ''db1'' ''hello''
          (no_faults\<lparr>on_copy := Some (2, ''disk full'')\<rparr>)
          [''data/db1.sqlite'' \<mapsto> ''old''])
        (database_file (\<lambda>d f. d @ ''/'' @ f) \<lparr>basePath = ''data''\<rparr> ''db1'') = Some ''old''"
proof -
  have ok: "fst (LocalStorage_Upload (\<lambda>d f. d @ ''/'' @ f) \<lparr>basePath = ''data''\<rparr> ''db1''
      ''hello'' no_faults Map.empty) = None"
    by (simp add: LocalStorage_Upload_def LocalStorage_Upload_steps_def Let_def os_Create_def
        io_Copy_def os_Rename_def no_faults_def database_file_def)
  have bad: "fst (LocalStorage_Upload (\<lambda>d f. d @ ''/'' @ f) \<lparr>basePath = ''data''\<rparr> ''db1''
      ''hello'' (no_faults\<lparr>on_copy := Some (2, ''disk full'')\<rparr>)
      [''data/db1.sqlite'' \<mapsto> ''old'']) = Some ''failed to write to temp file: disk full''"
    by (simp add: LocalStorage_Upload_def LocalStorage_Upload_steps_def Let_def os_Create_def
        io_Copy_def os_Remove_def no_faults_def database_file_def)
  have old: "[''data/db1.sqlite'' \<mapsto> ''old'']
      (database_file (\<lambda>d f. d @ ''/'' @ f) \<lparr>basePath = ''data''\<rparr> ''db1'') = Some ''old''"
    by (simp add: database_file_def)
  from ok
    LocalStorage_Upload_roundtrip
      [where join = "\<lambda>d f. d @ ''/'' @ f" and s = "\<lparr>basePath = ''data''\<rparr>"
         and name = "''db1''" and data = "''hello''" and faults = no_faults
         and fs = Map.empty]
  have a: "LocalStorage_Download (\<lambda>d f. d @ ''/'' @ f) \<lparr>basePath = ''data''\<rparr> ''db1'' None
        (snd (LocalStorage_Upload (\<lambda>d f. d @ ''/'' @ f) \<lparr>basePath = ''data''\<rparr> ''db1''
                ''hello'' no_faults Map.empty)) = Inr (Some ''hello'')"
    by blast
  from bad old
    LocalStorage_Upload_roundtrip
      [where join = "\<lambda>d f. d @ ''/'' @ f" and s = "\<lparr>basePath = ''data''\<rparr>"
         and name = "''db1''" and data = "''hello''"
         and faults = "no_faults\<lparr>on_copy := Some (2, ''disk full'')\<rparr>"
         and fs = "[''data/db1.sqlite'' \<mapsto> ''old'']"]
  have b: "snd (LocalStorage_Upload (\<lambda>d f. d @ ''/'' @ f) \<lparr>basePath = ''data''\<rparr> ''db1'' ''hello''
          (no_faults\<lparr>on_copy := Some (2, ''disk full'')\<rparr>)
          [''data/db1.sqlite'' \<mapsto> ''old''])
        (database_file (\<lambda>d f. d @ ''/'' @ f) \<lparr>basePath = ''data''\<rparr> ''db1'') = Some ''old''"
    by simp
  from ok a bad b show ?thesis by blast
qed

text \<open>
  Claim C7. On the local file system, deleting a name whose file does not exist
  returns no error and changes nothing (the removal meeting no fault of the operating
  system); and whenever a delete of a name reports success, \<open>Exists\<close> for that name
  answers false afterwards, with no error when the file status can be read.
\<close>

theorem LocalStorage_Delete_idempotent:
  "(fs (database_file join s name) = None \<longrightarrow>
      LocalStorage_Delete join s name None fs = (None, fs))
   \<and> (fst (LocalStorage_Delete join s name remove_fault fs) = None \<longrightarrow>
        fst (LocalStorage_Exists join s name stat_fault
               (snd (LocalStorage_Delete join s name remove_fault fs))) = False
        \<and> LocalStorage_Exists join s name None
               (snd (LocalStorage_Delete join s name remove_fault fs)) = (False, None))"
  using Delete_absent Delete_success_absent Exists_absent by blast

theorem LocalStorage_Delete_idempotent_witness:
  "Map.empty (database_file (\<lambda>d f. d @ ''/'' @ f) \<lparr>basePath = ''data''\<rparr> ''db1'') = None
   \<and> LocalStorage_Delete (\<lambda>d f. d @ ''/'' @ f) \<lparr>basePath = ''data''\<rparr> ''db1'' None Map.empty
        = (None, Map.empty)
   \<and> fst (LocalStorage_Delete (\<lambda>d f. d @ ''/'' @ f) \<lparr>basePath = ''data''\<rparr> ''db1'' None
            [''data/db1.sqlite'' \<mapsto> ''hello'']) = None
   \<and> LocalStorage_Exists (\<lambda>d f. d @ ''/'' @ f) \<lparr>basePath = ''data''\<rparr> ''db1'' None
        (snd (LocalStorage_Delete (\<lambda>d f. d @ ''/'' @ f) \<lparr>basePath = ''data''\<rparr> ''db1'' None
                [''data/db1.sqlite'' \<mapsto> ''hello''])) = (False, None)"
proof -
  have a: "Map.empty (database_file (\<lambda>d f. d @ ''/'' @ f) \<lparr>basePath = ''data''\<rparr> ''db1'')
      = None"
    by simp
  have b: "fst (LocalStorage_Delete (\<lambda>d f. d @ ''/'' @ f) \<lparr>basePath = ''data''\<rparr> ''db1'' None
            [''data/db1.sqlite'' \<mapsto> ''hello'']) = None"
    by (simp add: LocalStorage_Delete_def os_Remove_def database_file_def)
  from a b
    LocalStorage_Delete_idempotent
      [of Map.empty "\<lambda>d f. d @ ''/'' @ f" "\<lparr>basePath = ''data''\<rparr>" "''db1''" None None]
    LocalStorage_Delete_idempotent
      [of "[''data/db1.sqlite'' \<mapsto> ''hello'']" "\<lambda>d f. d @ ''/'' @ f"
          "\<lparr>basePath = ''data''\<rparr>" "''db1''" None None]
  show ?thesis by blast
qed

text \<open>
  Claim C8. When the blob store answers that the named database is absent, and
  creating the local file meets no fault of the operating system, the cache's
  \<open>Download\<close> returns no error, leaves a file of size 0 at the cache's local path
  and sets the last-sync time to the current time. The local blob store gives that
  answer whenever it has no file for the database.
\<close>

theorem DatabaseCache_Download_absent:
  "DatabaseCache_Download (Inr None) None copy_fault now c fs =
     (None, c\<lparr>lastSync := now\<rparr>, fs(localPath c \<mapsto> []))
   \<and> map_option length
        (snd (snd (DatabaseCache_Download (Inr None) None copy_fault now c fs)) (localPath c))
       = Some 0
   \<and> (fs (database_file join s (dbName c)) = None \<longrightarrow>
        LocalStorage_Download join s (dbName c) None fs = Inr None)"
  by (simp add: DatabaseCache_Download_def os_Create_def LocalStorage_Download_def os_Open_def)

theorem DatabaseCache_Download_absent_witness:
  "Map.empty (database_file (\<lambda>d f. d @ ''/'' @ f) \<lparr>basePath = ''data''\<rparr> ''appdb'') = None
   \<and> LocalStorage_Download (\<lambda>d f. d @ ''/'' @ f) \<lparr>basePath = ''data''\<rparr> ''appdb'' None
        Map.empty = Inr None
   \<and> DatabaseCache_Download
        (LocalStorage_Download (\<lambda>d f. d @ ''/'' @ f) \<lparr>basePath = ''data''\<rparr> ''appdb'' None
           Map.empty)
        None None 42
        \<lparr>localPath = ''/tmp/appdb-1.sqlite'', lastSync = 0, ttlMinutes = 5, dbName = ''appdb''\<rparr>
        Map.empty
      = (None,
         \<lparr>localPath = ''/tmp/appdb-1.sqlite'', lastSync = 42, ttlMinutes = 5,
          dbName = ''appdb''\<rparr>,
         [''/tmp/appdb-1.sqlite'' \<mapsto> []])"
proof -
  have a: "Map.empty (database_file (\<lambda>d f. d @ ''/'' @ f) \<lparr>basePath = ''data''\<rparr> ''appdb'')
      = None"
    by simp
  from a
    DatabaseCache_Download_absent
      [of None 42
          "\<lparr>localPath = ''/tmp/appdb-1.sqlite'', lastSync = 0, ttlMinutes = 5,
            dbName = ''appdb''\<rparr>"
          Map.empty "\<lambda>d f. d @ ''/'' @ f" "\<lparr>basePath = ''data''\<rparr>"]
  show ?thesis by simp
qed

section \<open>Claims about transactions\<close>

text \<open>
  Claim C1. Let any sequence of backend operations, on any connections and with any
  engine answers, run from a new backend. Then for every connection: when its status
  is idle a Begin that the engine accepts succeeds, and every successful Begin starts
  from idle and leaves the status in-transaction; from in-transaction a Commit that
  the engine accepts returns no error and leaves the status idle, and a Commit that
  the engine refuses returns the wrapped error and leaves the status failed; every
  successful Rollback leaves the status idle; a Begin when the status is not idle
  returns "transaction already in progress" and changes nothing; and a Commit when the
  status is idle returns "no transaction in progress", makes no engine call and
  leaves the connection as it was.
\<close>

theorem transaction_state_machine:
  assumes b: "b = run_ops ops (NewSQLiteBackend path defaultMode)"
  shows "(status_of c b = TxIdle \<longrightarrow>
            fst (BeginTransaction c mode None None b) = None)
       \<and> (fst (BeginTransaction c mode bf ef b) = None \<longrightarrow>
            status_of c b = TxIdle
            \<and> status_of c (snd (BeginTransaction c mode bf ef b)) = TxInTransaction)
       \<and> (status_of c b = TxInTransaction \<longrightarrow>
            fst (CommitTransaction c None b) = None
            \<and> status_of c (snd (CommitTransaction c None b)) = TxIdle)
       \<and> (status_of c b = TxInTransaction \<longrightarrow>
            fst (CommitTransaction c (Some e) b) = Some (''failed to commit transaction: '' @ e)
            \<and> status_of c (snd (CommitTransaction c (Some e) b)) = TxFailed)
       \<and> (fst (RollbackTransaction c rf b) = None \<longrightarrow>
            status_of c (snd (RollbackTransaction c rf b)) = TxIdle)
       \<and> (status_of c b \<noteq> TxIdle \<longrightarrow>
            BeginTransaction c mode bf ef b = (Some ''transaction already in progress'', b))
       \<and> (status_of c b = TxIdle \<longrightarrow>
            fst (CommitTransaction c cf b) = Some ''no transaction in progress''
            \<and> conn_of c (snd (CommitTransaction c cf b)) = conn_of c b
            \<and> db (snd (CommitTransaction c cf b)) = db b)"
proof -
  obtain conn b1 where g: "GetOrCreateConnection c b = (conn, b1)" by fastforce
  have okb: "backend_ok b" unfolding b by (rule reachable_ok)
  from GetOrCreateConnection_ok [OF okb g] have ok: "conn_ok conn" by simp
  have st: "status_of c b = TxStatus conn" using g by (rule status_of_get)
  have idle: "TxStatus conn = TxIdle \<longleftrightarrow> \<not> InTx conn" using ok by (simp add: conn_ok_def)
  have tx: "InTx conn \<longleftrightarrow> Tx conn \<noteq> None" using ok by (simp add: conn_ok_def)
  have c1: "status_of c b = TxIdle \<longrightarrow> fst (BeginTransaction c mode None None b) = None"
    using Begin_succeeds [OF g] st idle by simp
  have c2: "fst (BeginTransaction c mode bf ef b) = None \<longrightarrow>
            status_of c b = TxIdle
            \<and> status_of c (snd (BeginTransaction c mode bf ef b)) = TxInTransaction"
  proof
    assume s: "fst (BeginTransaction c mode bf ef b) = None"
    have "\<not> InTx conn"
    proof
      assume "InTx conn"
      from Begin_while_active [OF g this, of mode bf ef] s show False by simp
    qed
    with st idle Begin_success_status [OF s]
    show "status_of c b = TxIdle
        \<and> status_of c (snd (BeginTransaction c mode bf ef b)) = TxInTransaction"
      by simp
  qed
  have c34: "status_of c b = TxInTransaction \<longrightarrow>
      fst (CommitTransaction c None b) = None
      \<and> status_of c (snd (CommitTransaction c None b)) = TxIdle
      \<and> fst (CommitTransaction c (Some e) b) = Some (''failed to commit transaction: '' @ e)
      \<and> status_of c (snd (CommitTransaction c (Some e) b)) = TxFailed"
  proof
    assume "status_of c b = TxInTransaction"
    with st idle tx obtain t where "InTx conn" "Tx conn = Some t" by auto
    from Commit_active [OF g this]
    show "fst (CommitTransaction c None b) = None
      \<and> status_of c (snd (CommitTransaction c None b)) = TxIdle
      \<and> fst (CommitTransaction c (Some e) b) = Some (''failed to commit transaction: '' @ e)
      \<and> status_of c (snd (CommitTransaction c (Some e) b)) = TxFailed"
      by simp
  qed
  have c5: "fst (RollbackTransaction c rf b) = None \<longrightarrow>
            status_of c (snd (RollbackTransaction c rf b)) = TxIdle"
    using Rollback_success_status by blast
  have c6: "status_of c b \<noteq> TxIdle \<longrightarrow>
            BeginTransaction c mode bf ef b = (Some ''transaction already in progress'', b)"
    using Begin_while_active [OF g] st idle by simp
  have c7: "status_of c b = TxIdle \<longrightarrow>
            fst (CommitTransaction c cf b) = Some ''no transaction in progress''
            \<and> conn_of c (snd (CommitTransaction c cf b)) = conn_of c b
            \<and> db (snd (CommitTransaction c cf b)) = db b"
  proof
    assume "status_of c b = TxIdle"
    with st idle have "\<not> InTx conn \<or> Tx conn = None" by simp
    from Commit_idle [OF g this, of cf] conn_of_get [OF g] GetOrCreateConnection_db [OF g]
    show "fst (CommitTransaction c cf b) = Some ''no transaction in progress''
            \<and> conn_of c (snd (CommitTransaction c cf b)) = conn_of c b
            \<and> db (snd (CommitTransaction c cf b)) = db b"
      by simp
  qed
  from c1 c2 c34 c5 c6 c7 show ?thesis by blast
qed

theorem transaction_state_machine_witness:
  "status_of ''c1'' (run_ops [] (NewSQLiteBackend ''app.sqlite'' ''deferred'')) = TxIdle
   \<and> fst (BeginTransaction ''c1'' ''immediate'' None None
            (run_ops [] (NewSQLiteBackend ''app.sqlite'' ''deferred''))) = None
   \<and> status_of ''c1''
        (snd (BeginTransaction ''c1'' ''immediate'' None None
                (run_ops [] (NewSQLiteBackend ''app.sqlite'' ''deferred'')))) = TxInTransaction
   \<and> fst (CommitTransaction ''c1'' None
            (run_ops [] (NewSQLiteBackend ''app.sqlite'' ''deferred'')))
       = Some ''no transaction in progress''
   \<and> status_of ''c1''
        (run_ops [OpBegin ''c1'' [] None None] (NewSQLiteBackend ''app.sqlite'' ''deferred''))
       = TxInTransaction
   \<and> status_of ''c1''
        (snd (CommitTransaction ''c1'' None
                (run_ops [OpBegin ''c1'' [] None None]
                   (NewSQLiteBackend ''app.sqlite'' ''deferred'')))) = TxIdle
   \<and> status_of ''c1''
        (snd (CommitTransaction ''c1'' (Some ''database is locked'')
                (run_ops [OpBegin ''c1'' [] None None]
                   (NewSQLiteBackend ''app.sqlite'' ''deferred'')))) = TxFailed
   \<and> fst (RollbackTransaction ''c1'' None
            (run_ops [OpBegin ''c1'' [] None None]
               (NewSQLiteBackend ''app.sqlite'' ''deferred''))) = None
   \<and> status_of ''c1''
        (snd (RollbackTransaction ''c1'' None
                (run_ops [OpBegin ''c1'' [] None None]
                   (NewSQLiteBackend ''app.sqlite'' ''deferred'')))) = TxIdle
   \<and> BeginTransaction ''c1'' ''deferred'' None None
        (run_ops [OpBegin ''c1'' [] None None] (NewSQLiteBackend ''app.sqlite'' ''deferred''))
       = (Some ''transaction already in progress'',
          run_ops [OpBegin ''c1'' [] None None] (NewSQLiteBackend ''app.sqlite'' ''deferred''))"
proof -
  have idle: "status_of ''c1'' (run_ops [] (NewSQLiteBackend ''app.sqlite'' ''deferred''))
      = TxIdle"
    by code_simp
  have active: "status_of ''c1''
      (run_ops [OpBegin ''c1'' [] None None] (NewSQLiteBackend ''app.sqlite'' ''deferred''))
      = TxInTransaction"
    by code_simp
  have rb: "fst (RollbackTransaction ''c1'' None
      (run_ops [OpBegin ''c1'' [] None None] (NewSQLiteBackend ''app.sqlite'' ''deferred'')))
      = None"
    by code_simp
  note m0 = transaction_state_machine
      [OF refl, of "''c1''" "[]" "''app.sqlite''" "''deferred''" "''immediate''" None None
          "''database is locked''" None None]
  note m1 = transaction_state_machine
      [OF refl, of "''c1''" "[OpBegin ''c1'' [] None None]" "''app.sqlite''" "''deferred''"
          "''deferred''" None None "''database is locked''" None None]
  from idle m0 have a: "fst (BeginTransaction ''c1'' ''immediate'' None None
            (run_ops [] (NewSQLiteBackend ''app.sqlite'' ''deferred''))) = None"
    by blast
  from a m0 have a': "status_of ''c1''
        (snd (BeginTransaction ''c1'' ''immediate'' None None
                (run_ops [] (NewSQLiteBackend ''app.sqlite'' ''deferred'')))) = TxInTransaction"
    by blast
  from idle m0 have c: "fst (CommitTransaction ''c1'' None
            (run_ops [] (NewSQLiteBackend ''app.sqlite'' ''deferred'')))
       = Some ''no transaction in progress''"
    by blast
  from active have ne: "status_of ''c1''
      (run_ops [OpBegin ''c1'' [] None None] (NewSQLiteBackend ''app.sqlite'' ''deferred''))
      \<noteq> TxIdle"
    by simp
  from idle active rb ne a a' c m1 show ?thesis by blast
qed




text \<open>
  Claim C3. For a connection that holds a transaction: when the engine commit succeeds,
  \<open>Commit\<close> returns no error, sets the pending-upload flag and queues one signal on
  the upload channel if the channel has room, leaving a full channel as it is; when
  the engine commit fails, \<open>Commit\<close> returns the wrapped engine error, and the flag
  and the channel are unchanged. Whenever \<open>Commit\<close> returns an error it is the
  backend's error and neither the flag nor the channel changes. The channel never
  holds more than its capacity of one signal.
\<close>

theorem Commit_upload_signal:
  "(InTx (conn_of c (backend tm)) \<and> Tx (conn_of c (backend tm)) = Some tx \<longrightarrow>
      fst (TransactionManager_Commit c None tm) = None
      \<and> uploadPending (snd (TransactionManager_Commit c None tm))
      \<and> uploadChan (snd (TransactionManager_Commit c None tm)) =
          (if length (uploadChan tm) < uploadChan_capacity then uploadChan tm @ [True]
           else uploadChan tm))
   \<and> (InTx (conn_of c (backend tm)) \<and> Tx (conn_of c (backend tm)) = Some tx \<longrightarrow>
        fst (TransactionManager_Commit c (Some e) tm)
          = Some (''failed to commit transaction: '' @ e)
        \<and> uploadPending (snd (TransactionManager_Commit c (Some e) tm)) = uploadPending tm
        \<and> uploadChan (snd (TransactionManager_Commit c (Some e) tm)) = uploadChan tm)
   \<and> (fst (TransactionManager_Commit c cf tm) \<noteq> None \<longrightarrow>
        fst (TransactionManager_Commit c cf tm) = fst (CommitTransaction c cf (backend tm))
        \<and> uploadPending (snd (TransactionManager_Commit c cf tm)) = uploadPending tm
        \<and> uploadChan (snd (TransactionManager_Commit c cf tm)) = uploadChan tm)
   \<and> (length (uploadChan tm) \<le> uploadChan_capacity \<longrightarrow>
        length (uploadChan (snd (TransactionManager_Commit c cf tm))) \<le> uploadChan_capacity)"
proof (intro conjI impI)
  assume "InTx (conn_of c (backend tm)) \<and> Tx (conn_of c (backend tm)) = Some tx"
  then have h: "InTx (conn_of c (backend tm))" "Tx (conn_of c (backend tm)) = Some tx"
    by simp_all
  from Commit_success_signals [OF Commit_engine_result(1) [OF h]]
  show "fst (TransactionManager_Commit c None tm) = None"
    and "uploadPending (snd (TransactionManager_Commit c None tm))"
    and "uploadChan (snd (TransactionManager_Commit c None tm)) =
          (if length (uploadChan tm) < uploadChan_capacity then uploadChan tm @ [True]
           else uploadChan tm)"
    by simp_all
  from Commit_error_keeps_manager [OF Commit_engine_result(2) [OF h]]
  show "fst (TransactionManager_Commit c (Some e) tm)
          = Some (''failed to commit transaction: '' @ e)"
    and "uploadPending (snd (TransactionManager_Commit c (Some e) tm)) = uploadPending tm"
    and "uploadChan (snd (TransactionManager_Commit c (Some e) tm)) = uploadChan tm"
    by simp_all
next
  assume f: "fst (TransactionManager_Commit c cf tm) \<noteq> None"
  have "fst (CommitTransaction c cf (backend tm)) \<noteq> None"
  proof
    assume "fst (CommitTransaction c cf (backend tm)) = None"
    from Commit_success_signals [OF this] f show False by simp
  qed
  then obtain err where "fst (CommitTransaction c cf (backend tm)) = Some err" by auto
  from Commit_error_keeps_manager [OF this] this
  show "fst (TransactionManager_Commit c cf tm) = fst (CommitTransaction c cf (backend tm))"
    and "uploadPending (snd (TransactionManager_Commit c cf tm)) = uploadPending tm"
    and "uploadChan (snd (TransactionManager_Commit c cf tm)) = uploadChan tm"
    by simp_all
next
  assume "length (uploadChan tm) \<le> uploadChan_capacity"
  then show "length (uploadChan (snd (TransactionManager_Commit c cf tm)))
      \<le> uploadChan_capacity"
    by (rule Commit_capacity)
qed

theorem Commit_upload_signal_witness:
  "InTx (conn_of ''c1'' (backend example_manager))
   \<and> Tx (conn_of ''c1'' (backend example_manager)) = Some 0
   \<and> fst (TransactionManager_Commit ''c1'' None example_manager) = None
   \<and> uploadPending (snd (TransactionManager_Commit ''c1'' None example_manager))
   \<and> uploadChan (snd (TransactionManager_Commit ''c1'' None example_manager)) = [True]
   \<and> uploadChan (snd (TransactionManager_Commit ''c1'' None
                         (example_manager\<lparr>uploadChan := [True]\<rparr>))) = [True]
   \<and> fst (TransactionManager_Commit ''c1'' (Some ''database is locked'') example_manager)
       = Some ''failed to commit transaction: database is locked''
   \<and> uploadPending
        (snd (TransactionManager_Commit ''c1'' (Some ''database is locked'') example_manager))
       = False
   \<and> uploadChan
        (snd (TransactionManager_Commit ''c1'' (Some ''database is locked'') example_manager))
       = []"
proof -
  have p: "InTx (conn_of ''c1'' (backend example_manager))
      \<and> Tx (conn_of ''c1'' (backend example_manager)) = Some 0"
    by code_simp
  have q: "InTx (conn_of ''c1'' (backend (example_manager\<lparr>uploadChan := [True]\<rparr>)))
      \<and> Tx (conn_of ''c1'' (backend (example_manager\<lparr>uploadChan := [True]\<rparr>))) = Some 0"
    by code_simp
  have e: "uploadChan example_manager = [] \<and> uploadPending example_manager = False"
    by code_simp
  from p e
    Commit_upload_signal [of "''c1''" example_manager 0 "''database is locked''" None]
  have a: "fst (TransactionManager_Commit ''c1'' None example_manager) = None
   \<and> uploadPending (snd (TransactionManager_Commit ''c1'' None example_manager))
   \<and> uploadChan (snd (TransactionManager_Commit ''c1'' None example_manager)) = [True]
   \<and> fst (TransactionManager_Commit ''c1'' (Some ''database is locked'') example_manager)
       = Some ''failed to commit transaction: database is locked''
   \<and> uploadPending
        (snd (TransactionManager_Commit ''c1'' (Some ''database is locked'') example_manager))
       = False
   \<and> uploadChan
        (snd (TransactionManager_Commit ''c1'' (Some ''database is locked'') example_manager))
       = []"
    by (simp add: uploadChan_capacity_def)
  from q
    Commit_upload_signal [of "''c1''" "example_manager\<lparr>uploadChan := [True]\<rparr>" 0
        "''database is locked''" None]
  have b: "uploadChan (snd (TransactionManager_Commit ''c1'' None
                         (example_manager\<lparr>uploadChan := [True]\<rparr>))) = [True]"
    by (simp add: uploadChan_capacity_def)
  from p a b show ?thesis by blast
qed

text \<open>
  Claim C5. After any sequence of backend operations, \<open>Query\<close> and \<open>Exec\<close> hand back
  the engine's answer unchanged and make exactly one engine call, on the handle chosen
  from the state of that connection alone: the transaction handle when the connection
  is in a transaction and holds one (its status is then not idle), the shared handle
  otherwise (its status is then idle).
\<close>

theorem statements_use_active_handle:
  assumes b: "b = run_ops ops (NewSQLiteBackend path defaultMode)"
  shows "fst (Query c q args r b) = r
   \<and> calls (db (snd (Query c q args r b)))
       = calls (db b) @ [CallQuery (active_handle (conn_of c b)) q args]
   \<and> fst (Exec c q args r' b) = r'
   \<and> calls (db (snd (Exec c q args r' b)))
       = calls (db b) @ [CallExec (active_handle (conn_of c b)) q args]
   \<and> (InTx (conn_of c b) \<and> Tx (conn_of c b) = Some tx \<longrightarrow>
        active_handle (conn_of c b) = TX tx)
   \<and> (\<not> InTx (conn_of c b) \<or> Tx (conn_of c b) = None \<longrightarrow>
        active_handle (conn_of c b) = DB)
   \<and> (status_of c b = TxIdle \<longrightarrow> active_handle (conn_of c b) = DB)
   \<and> (status_of c b \<noteq> TxIdle \<longrightarrow>
        (\<exists>t. Tx (conn_of c b) = Some t \<and> active_handle (conn_of c b) = TX t))"
proof -
  have "backend_ok b" unfolding b by (rule reachable_ok)
  then have ok: "conn_ok (conn_of c b)" by (rule conn_of_ok)
  have st: "status_of c b = TxStatus (conn_of c b)" by (rule status_of_conn)
  from ok st have i: "status_of c b = TxIdle \<longrightarrow> active_handle (conn_of c b) = DB"
    by (auto simp: conn_ok_def active_handle_def split: option.splits)
  from ok st have a: "status_of c b \<noteq> TxIdle \<longrightarrow>
        (\<exists>t. Tx (conn_of c b) = Some t \<and> active_handle (conn_of c b) = TX t)"
    by (auto simp: conn_ok_def active_handle_def split: option.splits)
  from Query_call [of c q args r b] Exec_call [of c q args r' b]
    active_handle_cases [of "conn_of c b" tx] i a
  show ?thesis by blast
qed

theorem statements_use_active_handle_witness:
  "status_of ''c1'' (run_ops [] (NewSQLiteBackend ''app.sqlite'' ''deferred'')) = TxIdle
   \<and> calls (db (snd (Query ''c1'' ''SELECT 1'' [] ()
                       (run_ops [] (NewSQLiteBackend ''app.sqlite'' ''deferred''))))) 
       = [CallQuery DB ''SELECT 1'' []]
   \<and> InTx (conn_of ''c1''
        (run_ops [OpBegin ''c1'' [] None None] (NewSQLiteBackend ''app.sqlite'' ''deferred'')))
   \<and> Tx (conn_of ''c1''
        (run_ops [OpBegin ''c1'' [] None None] (NewSQLiteBackend ''app.sqlite'' ''deferred'')))
       = Some 0
   \<and> calls (db (snd (Exec ''c1'' ''DELETE FROM t'' [] ()
                       (run_ops [OpBegin ''c1'' [] None None]
                          (NewSQLiteBackend ''app.sqlite'' ''deferred'')))))
       = [CallBegin, CallExec (TX 0) ''DELETE FROM t'' []]
   \<and> calls (db (snd (Query ''c2'' ''SELECT 1'' [] ()
                       (run_ops [OpBegin ''c1'' [] None None]
                          (NewSQLiteBackend ''app.sqlite'' ''deferred'')))))
       = [CallBegin, CallQuery DB ''SELECT 1'' []]"
proof -
  have i: "status_of ''c1'' (run_ops [] (NewSQLiteBackend ''app.sqlite'' ''deferred''))
      = TxIdle"
    by code_simp
  have c0: "calls (db (run_ops [] (NewSQLiteBackend ''app.sqlite'' ''deferred''))) = []"
    by code_simp
  have a: "InTx (conn_of ''c1''
        (run_ops [OpBegin ''c1'' [] None None] (NewSQLiteBackend ''app.sqlite'' ''deferred'')))
      \<and> Tx (conn_of ''c1''
        (run_ops [OpBegin ''c1'' [] None None] (NewSQLiteBackend ''app.sqlite'' ''deferred'')))
       = Some 0"
    by code_simp
  have c1: "calls (db (run_ops [OpBegin ''c1'' [] None None]
      (NewSQLiteBackend ''app.sqlite'' ''deferred''))) = [CallBegin]"
    by code_simp
  have i2: "status_of ''c2''
      (run_ops [OpBegin ''c1'' [] None None] (NewSQLiteBackend ''app.sqlite'' ''deferred''))
      = TxIdle"
    by code_simp
  from i c0
    statements_use_active_handle
      [OF refl, of "''c1''" "''SELECT 1''" "[]" "()" "[]" "''app.sqlite''" "''deferred''" "()" 0]
  have q0: "calls (db (snd (Query ''c1'' ''SELECT 1'' [] ()
                       (run_ops [] (NewSQLiteBackend ''app.sqlite'' ''deferred'')))))
       = [CallQuery DB ''SELECT 1'' []]"
    by simp
  from a c1
    statements_use_active_handle
      [OF refl, of "''c1''" "''DELETE FROM t''" "[]" "()" "[OpBegin ''c1'' [] None None]"
          "''app.sqlite''" "''deferred''" "()" 0]
  have q1: "calls (db (snd (Exec ''c1'' ''DELETE FROM t'' [] ()
                       (run_ops [OpBegin ''c1'' [] None None]
                          (NewSQLiteBackend ''app.sqlite'' ''deferred'')))))
       = [CallBegin, CallExec (TX 0) ''DELETE FROM t'' []]"
    by simp
  from i2 c1
    statements_use_active_handle
      [OF refl, of "''c2''" "''SELECT 1''" "[]" "()" "[OpBegin ''c1'' [] None None]"
          "''app.sqlite''" "''deferred''" "()" 0]
  have q2: "calls (db (snd (Query ''c2'' ''SELECT 1'' [] ()
                       (run_ops [OpBegin ''c1'' [] None None]
                          (NewSQLiteBackend ''app.sqlite'' ''deferred'')))))
       = [CallBegin, CallQuery DB ''SELECT 1'' []]"
    by simp
  from i a q0 q1 q2 show ?thesis by blast
qed

text \<open>
  Claim C10. After any sequence of backend operations: a prepare that the engine
  accepts, under a name already bound to a statement, first closes that statement,
  then prepares the new one and binds the name to it, so that the old statement is no
  longer open; under a name not yet bound it closes nothing and adds the binding. At
  every moment each open statement is bound, and to exactly one name of one
  connection, so a name never stands for more than one open statement.
\<close>

theorem Prepare_closes_previous:
  assumes b: "b = run_ops ops (NewSQLiteBackend path defaultMode)"
  shows "(PreparedStmts (conn_of c b) name = Some old \<longrightarrow>
            fst (Prepare c name q cf None b) = None
            \<and> calls (db (snd (Prepare c name q cf None b)))
                = calls (db b)
                  @ [CallStmtClose old, CallPrepare (active_handle (conn_of c b)) q]
            \<and> PreparedStmts (conn_of c (snd (Prepare c name q cf None b)))
                = (PreparedStmts (conn_of c b))(name \<mapsto> next_handle (db b))
            \<and> old \<noteq> next_handle (db b)
            \<and> open_stmts (db (snd (Prepare c name q cf None b)))
                = insert (next_handle (db b)) (open_stmts (db b) - {old}))
       \<and> (PreparedStmts (conn_of c b) name = None \<longrightarrow>
            fst (Prepare c name q cf None b) = None
            \<and> calls (db (snd (Prepare c name q cf None b)))
                = calls (db b) @ [CallPrepare (active_handle (conn_of c b)) q]
            \<and> PreparedStmts (conn_of c (snd (Prepare c name q cf None b)))
                = (PreparedStmts (conn_of c b))(name \<mapsto> next_handle (db b))
            \<and> open_stmts (db (snd (Prepare c name q cf None b)))
                = insert (next_handle (db b)) (open_stmts (db b)))
       \<and> stmts_ok b
       \<and> stmts_ok (snd (Prepare c name q cf pf b))"
proof -
  have ok: "stmts_ok b" unfolding b by (rule reachable_stmts_ok)
  note r = Prepare_success [of c name q cf b]
  note m = Prepare_success_map [of c name q cf b]
  have c1: "PreparedStmts (conn_of c b) name = Some old \<longrightarrow>
            fst (Prepare c name q cf None b) = None
            \<and> calls (db (snd (Prepare c name q cf None b)))
                = calls (db b)
                  @ [CallStmtClose old, CallPrepare (active_handle (conn_of c b)) q]
            \<and> PreparedStmts (conn_of c (snd (Prepare c name q cf None b)))
                = (PreparedStmts (conn_of c b))(name \<mapsto> next_handle (db b))
            \<and> old \<noteq> next_handle (db b)
            \<and> open_stmts (db (snd (Prepare c name q cf None b)))
                = insert (next_handle (db b)) (open_stmts (db b) - {old})"
  proof
    assume o: "PreparedStmts (conn_of c b) name = Some old"
    then have "bound_to b old c name" by (simp add: bound_to_conn_of)
    with ok have "old < next_handle (db b)" unfolding stmts_ok_def by blast
    then have ne: "old \<noteq> next_handle (db b)" by simp
    from r m o ne
    show "fst (Prepare c name q cf None b) = None
            \<and> calls (db (snd (Prepare c name q cf None b)))
                = calls (db b)
                  @ [CallStmtClose old, CallPrepare (active_handle (conn_of c b)) q]
            \<and> PreparedStmts (conn_of c (snd (Prepare c name q cf None b)))
                = (PreparedStmts (conn_of c b))(name \<mapsto> next_handle (db b))
            \<and> old \<noteq> next_handle (db b)
            \<and> open_stmts (db (snd (Prepare c name q cf None b)))
                = insert (next_handle (db b)) (open_stmts (db b) - {old})"
      by (simp add: closing_def)
  qed
  have c2: "PreparedStmts (conn_of c b) name = None \<longrightarrow>
            fst (Prepare c name q cf None b) = None
            \<and> calls (db (snd (Prepare c name q cf None b)))
                = calls (db b) @ [CallPrepare (active_handle (conn_of c b)) q]
            \<and> PreparedStmts (conn_of c (snd (Prepare c name q cf None b)))
                = (PreparedStmts (conn_of c b))(name \<mapsto> next_handle (db b))
            \<and> open_stmts (db (snd (Prepare c name q cf None b)))
                = insert (next_handle (db b)) (open_stmts (db b))"
    using r m by (simp add: closing_def)
  from c1 c2 ok Prepare_stmts_ok [OF ok] show ?thesis by blast
qed

theorem Prepare_closes_previous_witness:
  "PreparedStmts
     (conn_of ''c1''
        (run_ops [OpPrepare ''c1'' ''s'' ''SELECT 1'' None None]
           (NewSQLiteBackend ''app.sqlite'' ''deferred''))) ''s'' = Some 0
   \<and> calls (db (snd (Prepare ''c1'' ''s'' ''SELECT 2'' None None
                       (run_ops [OpPrepare ''c1'' ''s'' ''SELECT 1'' None None]
                          (NewSQLiteBackend ''app.sqlite'' ''deferred'')))))
       = [CallPrepare DB ''SELECT 1'', CallStmtClose 0, CallPrepare DB ''SELECT 2'']
   \<and> PreparedStmts
        (conn_of ''c1''
           (snd (Prepare ''c1'' ''s'' ''SELECT 2'' None None
                   (run_ops [OpPrepare ''c1'' ''s'' ''SELECT 1'' None None]
                      (NewSQLiteBackend ''app.sqlite'' ''deferred''))))) ''s'' = Some 1
   \<and> open_stmts (db (snd (Prepare ''c1'' ''s'' ''SELECT 2'' None None
                       (run_ops [OpPrepare ''c1'' ''s'' ''SELECT 1'' None None]
                          (NewSQLiteBackend ''app.sqlite'' ''deferred''))))) = {1}
   \<and> PreparedStmts
        (conn_of ''c1''
           (run_ops [OpPrepare ''c1'' ''s'' ''SELECT 1'' None None]
              (NewSQLiteBackend ''app.sqlite'' ''deferred''))) ''t'' = None
   \<and> calls (db (snd (Prepare ''c1'' ''t'' ''SELECT 3'' None None
                       (run_ops [OpPrepare ''c1'' ''s'' ''SELECT 1'' None None]
                          (NewSQLiteBackend ''app.sqlite'' ''deferred'')))))
       = [CallPrepare DB ''SELECT 1'', CallPrepare DB ''SELECT 3'']
   \<and> open_stmts (db (snd (Prepare ''c1'' ''t'' ''SELECT 3'' None None
                       (run_ops [OpPrepare ''c1'' ''s'' ''SELECT 1'' None None]
                          (NewSQLiteBackend ''app.sqlite'' ''deferred''))))) = {0, 1}
   \<and> stmts_ok (run_ops [OpPrepare ''c1'' ''s'' ''SELECT 1'' None None]
                  (NewSQLiteBackend ''app.sqlite'' ''deferred''))"
proof -
  let ?b = "run_ops [OpPrepare ''c1'' ''s'' ''SELECT 1'' None None]
      (NewSQLiteBackend ''app.sqlite'' ''deferred'')"
  have s: "PreparedStmts (conn_of ''c1'' ?b) ''s'' = Some 0" by code_simp
  have t: "PreparedStmts (conn_of ''c1'' ?b) ''t'' = None" by code_simp
  have k: "calls (db ?b) = [CallPrepare DB ''SELECT 1'']" by code_simp
  have n: "next_handle (db ?b) = 1" by code_simp
  have o: "open_stmts (db ?b) = {0}" by code_simp
  have h: "active_handle (conn_of ''c1'' ?b) = DB" by code_simp
  note w1 = Prepare_closes_previous
      [OF refl, of "''c1''" "[OpPrepare ''c1'' ''s'' ''SELECT 1'' None None]" "''app.sqlite''"
          "''deferred''" "''s''" 0 "''SELECT 2''" None None]
  note w2 = Prepare_closes_previous
      [OF refl, of "''c1''" "[OpPrepare ''c1'' ''s'' ''SELECT 1'' None None]" "''app.sqlite''"
          "''deferred''" "''t''" 0 "''SELECT 3''" None None]
  from s k n o h w1
  have a: "calls (db (snd (Prepare ''c1'' ''s'' ''SELECT 2'' None None ?b)))
       = [CallPrepare DB ''SELECT 1'', CallStmtClose 0, CallPrepare DB ''SELECT 2'']
     \<and> PreparedStmts (conn_of ''c1'' (snd (Prepare ''c1'' ''s'' ''SELECT 2'' None None ?b))) ''s''
         = Some 1
     \<and> open_stmts (db (snd (Prepare ''c1'' ''s'' ''SELECT 2'' None None ?b))) = {1}
     \<and> stmts_ok ?b"
    by simp
  from t k n o h w2
  have c: "calls (db (snd (Prepare ''c1'' ''t'' ''SELECT 3'' None None ?b)))
       = [CallPrepare DB ''SELECT 1'', CallPrepare DB ''SELECT 3'']
     \<and> open_stmts (db (snd (Prepare ''c1'' ''t'' ''SELECT 3'' None None ?b))) = {0, 1}"
    by auto
  from s t a c show ?thesis by blast
qed

end
